theory Spec2Isabelle
  imports Complex_Main
begin

section \<open>Element types and numpy's promotion table\<close>

text \<open>
  The element types fastmat works with.  \<open>promote_types\<close> is numpy's
  \<^verbatim>\<open>np.promote_types\<close> restricted to them.
\<close>

datatype dtype = Int8 | Int16 | Int32 | Int64 | Float32 | Float64 | Complex64 | Complex128

fun promote_types :: "dtype \<Rightarrow> dtype \<Rightarrow> dtype" where
  "promote_types Complex128 _ = Complex128"
| "promote_types _ Complex128 = Complex128"
| "promote_types Complex64 Float64 = Complex128"
| "promote_types Complex64 Int64 = Complex128"
| "promote_types Complex64 Int32 = Complex128"
| "promote_types Complex64 _ = Complex64"
| "promote_types Float64 Complex64 = Complex128"
| "promote_types Int64 Complex64 = Complex128"
| "promote_types Int32 Complex64 = Complex128"
| "promote_types _ Complex64 = Complex64"
| "promote_types Float64 _ = Float64"
| "promote_types _ Float64 = Float64"
| "promote_types Float32 Int64 = Float64"
| "promote_types Float32 Int32 = Float64"
| "promote_types Float32 _ = Float32"
| "promote_types Int64 Float32 = Float64"
| "promote_types Int32 Float32 = Float64"
| "promote_types _ Float32 = Float32"
| "promote_types Int64 _ = Int64"
| "promote_types _ Int64 = Int64"
| "promote_types Int32 _ = Int32"
| "promote_types _ Int32 = Int32"
| "promote_types Int16 _ = Int16"
| "promote_types _ Int16 = Int16"
| "promote_types Int8 Int8 = Int8"

text \<open>\<open>a\<close> is no wider than \<open>b\<close>: promoting \<open>a\<close> with \<open>b\<close> gives \<open>b\<close>.\<close>

definition dtype_le :: "dtype \<Rightarrow> dtype \<Rightarrow> bool" where
  "dtype_le a b = (promote_types a b = b)"

subsection \<open>Storing a value in an element type\<close>

text \<open>
  Values are complex numbers.  An integer type keeps the integer part of the
  real part, wrapped to its width (two's complement); a real type keeps the
  real part; a complex type keeps the value.  Rounding of floating-point
  numbers is not part of the model.
\<close>

definition trunc :: "real \<Rightarrow> int" where
  "trunc r = (if 0 \<le> r then \<lfloor>r\<rfloor> else \<lceil>r\<rceil>)"

definition wrap :: "nat \<Rightarrow> int \<Rightarrow> int" where
  "wrap w v = (v + 2 ^ (w - 1)) mod 2 ^ w - 2 ^ (w - 1)"

fun store :: "dtype \<Rightarrow> complex \<Rightarrow> complex" where
  "store Int8 v = of_int (wrap 8 (trunc (Re v)))"
| "store Int16 v = of_int (wrap 16 (trunc (Re v)))"
| "store Int32 v = of_int (wrap 32 (trunc (Re v)))"
| "store Int64 v = of_int (wrap 64 (trunc (Re v)))"
| "store Float32 v = of_real (Re v)"
| "store Float64 v = of_real (Re v)"
| "store Complex64 v = v"
| "store Complex128 v = v"

section \<open>numpy scalars and arrays\<close>

record npscalar =
  sdtype :: dtype
  sval :: complex

text \<open>\<^verbatim>\<open>np.inner\<close> of two scalars: the product, in the promoted type.\<close>

definition inner_ss :: "npscalar \<Rightarrow> npscalar \<Rightarrow> npscalar" where
  "inner_ss a b =
     (let d = promote_types (sdtype a) (sdtype b)
      in \<lparr>sdtype = d, sval = store d (sval a * sval b)\<rparr>)"

definition astype_s :: "npscalar \<Rightarrow> dtype \<Rightarrow> npscalar" where
  "astype_s s d = \<lparr>sdtype = d, sval = store d (sval s)\<rparr>"

definition conjugate_s :: "npscalar \<Rightarrow> npscalar" where
  "conjugate_s s = \<lparr>sdtype = sdtype s, sval = cnj (sval s)\<rparr>"

text \<open>\<^verbatim>\<open>np.iscomplex\<close>: the imaginary part is not zero.\<close>

definition iscomplex :: "npscalar \<Rightarrow> bool" where
  "iscomplex s = (Im (sval s) \<noteq> 0)"

text \<open>
  A two-dimensional array: its shape, its element type and its elements by
  row and column.  Only the elements inside the shape are meaningful.
\<close>

record ndarray =
  shape0 :: nat
  shape1 :: nat
  adtype :: dtype
  elt :: "nat \<Rightarrow> nat \<Rightarrow> complex"

text \<open>\<^verbatim>\<open>np.inner(arr, scalar)\<close>: every element times the scalar, in the promoted type.\<close>

definition inner_as :: "ndarray \<Rightarrow> npscalar \<Rightarrow> ndarray" where
  "inner_as X s =
     (let d = promote_types (adtype X) (sdtype s)
      in X\<lparr>adtype := d, elt := \<lambda>i j. store d (elt X i j * sval s)\<rparr>)"

definition astype :: "ndarray \<Rightarrow> dtype \<Rightarrow> ndarray" where
  "astype X d = X\<lparr>adtype := d, elt := \<lambda>i j. store d (elt X i j)\<rparr>"

section \<open>Errors\<close>

text \<open>
  \<open>TypeError\<close> and \<open>ValueError\<close> carry the message of the exception.
  \<open>DimensionError ii n m\<close> is the \<^verbatim>\<open>ValueError\<close> with the message
  \<^verbatim>\<open>"Dimensions of product factor %d [%dx%d] do not match." % (ii, n, m)\<close>.
  \<open>NumpyError\<close> is a \<^verbatim>\<open>ValueError\<close> raised inside numpy (shapes that
  cannot be reshaped, contracted, multiplied or broadcast).  \<open>IndexError\<close>
  is an index out of range.  \<open>EvaluationShapeError\<close> is the error of
  an input batch whose row count does not fit the operator.
\<close>

datatype error =
    TypeError string
  | ValueError string
  | DimensionError nat nat nat
  | NumpyError
  | IndexError
  | EvaluationShapeError

section \<open>Operators\<close>

text \<open>
  The operator contract that \<^verbatim>\<open>Product\<close> consumes: the base class
  \<^verbatim>\<open>Matrix\<close> is not part of the sources, so an operator is given by its
  shape, its element type and its three operations.
\<close>

record operator =
  numN :: nat
  numM :: nat
  dtype :: dtype
  forward :: "ndarray \<Rightarrow> error + ndarray"
  backward :: "ndarray \<Rightarrow> error + ndarray"
  reference :: ndarray

text \<open>
  A \<^verbatim>\<open>Product\<close> instance after \<^verbatim>\<open>__init__\<close>.  The fields
  \<open>p_scalar\<close> and \<open>p_content\<close> are \<^verbatim>\<open>_scalar\<close> and \<^verbatim>\<open>_content\<close>;
  \<open>p_numN\<close>, \<open>p_numM\<close> and \<open>p_dtype\<close> are what \<^verbatim>\<open>_initProperties\<close>
  receives; \<open>p_forwardReferenceMatrix\<close> is \<open>None\<close> until the cache is built.
\<close>

record product =
  p_scalar :: npscalar
  p_content :: "operator list"
  p_numN :: nat
  p_numM :: nat
  p_dtype :: dtype
  p_forwardReferenceMatrix :: "ndarray list option"

text \<open>
  A term handed to \<^verbatim>\<open>Product(...)\<close>: a scalar (\<^verbatim>\<open>np.isscalar\<close>), a
  matrix that is not a Product, a Product, or anything else.
\<close>

datatype factor =
    Scalar npscalar
  | Op operator
  | Prod product
  | NonMatrix

section \<open>Product\<close>

subsection \<open>The property \<^verbatim>\<open>content\<close>\<close>

definition content :: "product \<Rightarrow> factor list" where
  "content self =
     (let lst = (if sval (p_scalar self) \<noteq> 1 then [Scalar (p_scalar self)] else [])
      in lst @ map Op (p_content self))"

subsection \<open>\<^verbatim>\<open>__init__\<close>\<close>

text \<open>What the closures of \<^verbatim>\<open>__init__\<close> update while the terms are added.\<close>

record init_state =
  datatype0 :: dtype
  scalar :: npscalar
  lstFactors :: "operator list"

definition promoteType :: "dtype \<Rightarrow> init_state \<Rightarrow> init_state" where
  "promoteType d st = st\<lparr>datatype0 := promote_types (datatype0 st) d\<rparr>"

text \<open>The size of a term, for the termination of the flattening.\<close>

fun weight :: "factor \<Rightarrow> nat" where
  "weight (Prod p) = length (p_content p) + 3"
| "weight _ = 1"

function addFactors :: "factor list \<Rightarrow> init_state \<Rightarrow> error + init_state" where
  "addFactors [] st = Inr st"
| "addFactors (Scalar s # factors) st =
     addFactors factors
       ((promoteType (sdtype s) st)\<lparr>scalar := inner_ss (scalar st) s\<rparr>)"
| "addFactors (NonMatrix # factors) st =
     Inl (TypeError ''Product has non-fastmat-matrix terms.'')"
| "addFactors (Prod p # factors) st =
     (case addFactors (content p) st of
        Inl e \<Rightarrow> Inl e
      | Inr st' \<Rightarrow> addFactors factors st')"
| "addFactors (Op a # factors) st =
     addFactors factors
       ((promoteType (dtype a) st)\<lparr>lstFactors := lstFactors st @ [a]\<rparr>)"
  by pat_completeness auto
termination
  by (relation "measure (\<lambda>(fs, st). sum_list (map weight fs))")
     (auto simp: content_def comp_def sum_list_triv)

text \<open>
  The loop that checks each factor's \<open>numN\<close> against the running \<open>numM\<close>;
  \<open>ii\<close> is the index of the factor \<open>f\<close>.
\<close>

fun checkDims :: "operator list \<Rightarrow> nat \<Rightarrow> nat \<Rightarrow> nat \<Rightarrow> error + nat" where
  "checkDims [] ii n m = Inr m"
| "checkDims (f # fs) ii n m =
     (if numN f \<noteq> m then Inl (DimensionError ii n m)
      else checkDims fs (ii + 1) n (numM f))"

text \<open>
  The option \<^verbatim>\<open>typeExpansion\<close>: absent, \<^verbatim>\<open>None\<close>, or an element type.
\<close>

datatype type_expansion = Default | NoExpansion | Expand dtype

text \<open>
  \<^verbatim>\<open>safeTypeExpansion\<close> is imported from \<^verbatim>\<open>helpers.types\<close>, which is
  not part of the sources: it is a parameter.  The option \<^verbatim>\<open>debug\<close>
  only prints and is left out.
\<close>

definition Product_init ::
  "(dtype \<Rightarrow> dtype) \<Rightarrow> factor list \<Rightarrow> type_expansion \<Rightarrow> error + product" where
  "Product_init safeTypeExpansion matrices typeExpansion =
     (case addFactors matrices
             \<lparr>datatype0 = Int8, scalar = \<lparr>sdtype = Int8, sval = 1\<rparr>, lstFactors = []\<rparr> of
        Inl e \<Rightarrow> Inl e
      | Inr st \<Rightarrow>
          (let dt = datatype0 st;
               dt' = (case typeExpansion of
                        Default \<Rightarrow> promote_types dt (safeTypeExpansion dt)
                      | NoExpansion \<Rightarrow> dt
                      | Expand t \<Rightarrow> promote_types dt t)
           in case lstFactors st of
                [] \<Rightarrow> Inl (ValueError ''Product has no terms.'')
              | f0 # fs \<Rightarrow>
                  (case checkDims fs 1 (numN f0) (numM f0) of
                     Inl e \<Rightarrow> Inl e
                   | Inr m \<Rightarrow>
                       Inr \<lparr>p_scalar = astype_s (scalar st) dt',
                            p_content = lstFactors st,
                            p_numN = numN f0,
                            p_numM = m,
                            p_dtype = dt',
                            p_forwardReferenceMatrix = None\<rparr>)))"

subsection \<open>\<^verbatim>\<open>_forward\<close> and \<^verbatim>\<open>_backward\<close>\<close>

text \<open>
  \<^verbatim>\<open>for ii in range(0, cnt): iii = cnt - 1 - ii; arrRes = self._content[iii].forward(arrRes)\<close>
\<close>

function forward_loop :: "operator list \<Rightarrow> nat \<Rightarrow> ndarray \<Rightarrow> error + ndarray" where
  "forward_loop cs ii arrRes =
     (let cnt = length cs
      in if ii < cnt
         then (case forward (cs ! (cnt - 1 - ii)) arrRes of
                 Inl e \<Rightarrow> Inl e
               | Inr r \<Rightarrow> forward_loop cs (ii + 1) r)
         else Inr arrRes)"
  by pat_completeness auto
termination
  by (relation "measure (\<lambda>(cs, ii, arrRes). length cs - ii)") auto

declare forward_loop.simps [simp del]

definition Product_forward :: "product \<Rightarrow> ndarray \<Rightarrow> error + ndarray" where
  "Product_forward self arrX =
     (let arrRes =
        (if sval (p_scalar self) \<noteq> 1
         then inner_as arrX (p_scalar self)
         else astype arrX (promote_types (adtype arrX) (p_dtype self)))
      in forward_loop (p_content self) 0 arrRes)"

text \<open>
  \<^verbatim>\<open>for ii in range(0, cnt): arrRes = self._content[ii].backward(arrRes)\<close>
\<close>

function backward_loop :: "operator list \<Rightarrow> nat \<Rightarrow> ndarray \<Rightarrow> error + ndarray" where
  "backward_loop cs ii arrRes =
     (let cnt = length cs
      in if ii < cnt
         then (case backward (cs ! ii) arrRes of
                 Inl e \<Rightarrow> Inl e
               | Inr r \<Rightarrow> backward_loop cs (ii + 1) r)
         else Inr arrRes)"
  by pat_completeness auto
termination
  by (relation "measure (\<lambda>(cs, ii, arrRes). length cs - ii)") auto

declare backward_loop.simps [simp del]

definition Product_backward :: "product \<Rightarrow> ndarray \<Rightarrow> error + ndarray" where
  "Product_backward self arrX =
     (let arrRes =
        (if sval (p_scalar self) \<noteq> 1
         then (if iscomplex (p_scalar self)
               then inner_as arrX (conjugate_s (p_scalar self))
               else inner_as arrX (p_scalar self))
         else astype arrX (promote_types (adtype arrX) (p_dtype self)))
      in backward_loop (p_content self) 0 arrRes)"

subsection \<open>\<^verbatim>\<open>_reference\<close> and \<^verbatim>\<open>_forwardReference\<close>\<close>

text \<open>
  \<^verbatim>\<open>A.dot(B)\<close> for two-dimensional arrays: numpy raises when the inner
  sizes differ.  The sum is taken exactly and stored in the promoted type.
\<close>

definition dot :: "ndarray \<Rightarrow> ndarray \<Rightarrow> error + ndarray" where
  "dot A B =
     (if shape1 A \<noteq> shape0 B then Inl NumpyError
      else (let d = promote_types (adtype A) (adtype B)
            in Inr \<lparr>shape0 = shape0 A, shape1 = shape1 B, adtype = d,
                     elt = \<lambda>i j. store d (\<Sum>k<shape1 A. elt A i k * elt B k j)\<rparr>))"

text \<open>
  \<^verbatim>\<open>for ii in range(1, cnt): term = self._content[cnt - ii - 1]; arrRes = term.reference().dot(arrRes)\<close>
\<close>

function reference_loop :: "operator list \<Rightarrow> nat \<Rightarrow> ndarray \<Rightarrow> error + ndarray" where
  "reference_loop cs ii arrRes =
     (let cnt = length cs
      in if ii < cnt
         then (case dot (reference (cs ! (cnt - ii - 1))) arrRes of
                 Inl e \<Rightarrow> Inl e
               | Inr r \<Rightarrow> reference_loop cs (ii + 1) r)
         else Inr arrRes)"
  by pat_completeness auto
termination
  by (relation "measure (\<lambda>(cs, ii, arrRes). length cs - ii)") auto

declare reference_loop.simps [simp del]

definition Product_reference :: "product \<Rightarrow> error + ndarray" where
  "Product_reference self =
     (let cnt = length (p_content self);
          dt = promote_types Float64 (p_dtype self)
      in if cnt = 0 then Inl IndexError
         else reference_loop (p_content self) 1
                (inner_as (reference (p_content self ! (cnt - 1)))
                   (astype_s (p_scalar self) dt)))"

definition Product_forwardReferenceInit :: "product \<Rightarrow> product" where
  "Product_forwardReferenceInit self =
     self\<lparr>p_forwardReferenceMatrix := Some (map reference (p_content self))\<rparr>"

text \<open>
  \<^verbatim>\<open>for ii in range(len(self._content), 0, -1): arrRes = self._forwardReferenceMatrix[ii - 1].dot(arrRes)\<close>
\<close>

fun forwardReference_loop :: "ndarray list \<Rightarrow> nat \<Rightarrow> ndarray \<Rightarrow> error + ndarray" where
  "forwardReference_loop ms 0 arrRes = Inr arrRes"
| "forwardReference_loop ms (Suc i) arrRes =
     (if length ms \<le> i then Inl IndexError
      else (case dot (ms ! i) arrRes of
              Inl e \<Rightarrow> Inl e
            | Inr r \<Rightarrow> forwardReference_loop ms i r))"

text \<open>
  The call returns its result and the instance, whose cache is filled on the
  first call.
\<close>

definition Product_forwardReference :: "product \<Rightarrow> ndarray \<Rightarrow> (error + ndarray) \<times> product" where
  "Product_forwardReference self arrX =
     (let self' = (case p_forwardReferenceMatrix self of
                     None \<Rightarrow> Product_forwardReferenceInit self
                   | Some ms \<Rightarrow> self)
      in (case p_forwardReferenceMatrix self' of
            None \<Rightarrow> (Inl IndexError, self')
          | Some ms \<Rightarrow> (forwardReference_loop ms (length (p_content self')) arrX, self')))"

section \<open>DiagBlocks\<close>

text \<open>A three-dimensional array, as \<open>ndarray\<close> is a two-dimensional one.\<close>

record tensor3 =
  dim0 :: nat
  dim1 :: nat
  dim2 :: nat
  tdtype :: dtype
  elt3 :: "nat \<Rightarrow> nat \<Rightarrow> nat \<Rightarrow> complex"

record diagblocks =
  numDiagsN :: nat
  numDiagsM :: nat
  numDiagsSize :: nat
  tenDiags :: tensor3
  d_numN :: nat
  d_numM :: nat
  d_dtype :: dtype

definition DiagBlocks_init :: "tensor3 \<Rightarrow> diagblocks" where
  "DiagBlocks_init T =
     \<lparr>numDiagsN = dim0 T, numDiagsM = dim1 T, numDiagsSize = dim2 T,
      tenDiags = T,
      d_numN = dim0 T * dim2 T, d_numM = dim1 T * dim2 T,
      d_dtype = tdtype T\<rparr>"

subsection \<open>The numpy operations of the transforms\<close>

definition conj3 :: "tensor3 \<Rightarrow> tensor3" where
  "conj3 T = T\<lparr>elt3 := \<lambda>a b c. cnj (elt3 T a b c)\<rparr>"

text \<open>
  Column-major (\<^verbatim>\<open>order='F'\<close>) flat indexing: the first index runs fastest.
\<close>

definition flatF :: "ndarray \<Rightarrow> nat \<Rightarrow> complex" where
  "flatF X f = elt X (f mod shape0 X) (f div shape0 X)"

definition flat3F :: "tensor3 \<Rightarrow> nat \<Rightarrow> complex" where
  "flat3F T f = elt3 T (f mod dim0 T) ((f div dim0 T) mod dim1 T) (f div (dim0 T * dim1 T))"

text \<open>
  \<^verbatim>\<open>X.reshape((-1, d1, d2), order='F')\<close>: the first size is what is left of
  the element count; numpy raises when the count is not a multiple of
  \<open>d1 * d2\<close> or when \<open>d1 * d2\<close> is zero.
\<close>

definition reshape3F :: "ndarray \<Rightarrow> nat \<Rightarrow> nat \<Rightarrow> error + tensor3" where
  "reshape3F X d1 d2 =
     (let total = shape0 X * shape1 X; known = d1 * d2
      in if known = 0 \<or> total mod known \<noteq> 0 then Inl NumpyError
         else (let d0 = total div known
               in Inr \<lparr>dim0 = d0, dim1 = d1, dim2 = d2, tdtype = adtype X,
                        elt3 = \<lambda>a b c. flatF X (a + d0 * (b + d1 * c))\<rparr>))"

text \<open>\<^verbatim>\<open>T.reshape((-1, d1), order='F')\<close>\<close>

definition reshape2F :: "tensor3 \<Rightarrow> nat \<Rightarrow> error + ndarray" where
  "reshape2F T d1 =
     (let total = dim0 T * dim1 T * dim2 T
      in if d1 = 0 \<or> total mod d1 \<noteq> 0 then Inl NumpyError
         else (let d0 = total div d1
               in Inr \<lparr>shape0 = d0, shape1 = d1, adtype = tdtype T,
                        elt = \<lambda>i j. flat3F T (i + d0 * j)\<rparr>))"

text \<open>
  Two sizes that carry the same label of an \<^verbatim>\<open>einsum\<close> must agree, where
  a size of one is stretched to the other; \<open>bidx\<close> reads a stretched axis.
\<close>

definition bcast :: "nat \<Rightarrow> nat \<Rightarrow> nat option" where
  "bcast a b = (if a = b then Some a else if a = 1 then Some b else if b = 1 then Some a else None)"

definition bidx :: "nat \<Rightarrow> nat \<Rightarrow> nat" where
  "bidx d i = (if d = 1 then 0 else i)"

text \<open>
  \<^verbatim>\<open>np.einsum('nmz,zmk -> znk', A, B)\<close>: the labels \<open>m\<close> and \<open>z\<close> are
  shared, \<open>m\<close> is summed.
\<close>

definition einsum_nmz_zmk :: "tensor3 \<Rightarrow> tensor3 \<Rightarrow> error + tensor3" where
  "einsum_nmz_zmk A B =
     (case (bcast (dim1 A) (dim1 B), bcast (dim2 A) (dim0 B)) of
        (Some m, Some z) \<Rightarrow>
          Inr \<lparr>dim0 = z, dim1 = dim0 A, dim2 = dim2 B,
               tdtype = promote_types (tdtype A) (tdtype B),
               elt3 = \<lambda>zz nn kk. \<Sum>mm<m.
                        elt3 A nn (bidx (dim1 A) mm) (bidx (dim2 A) zz)
                        * elt3 B (bidx (dim0 B) zz) (bidx (dim1 B) mm) kk\<rparr>
      | _ \<Rightarrow> Inl NumpyError)"

text \<open>
  \<^verbatim>\<open>np.einsum('mnz,zmk -> znk', A, B)\<close>: as before, with the first two
  axes of \<open>A\<close> in the other roles.
\<close>

definition einsum_mnz_zmk :: "tensor3 \<Rightarrow> tensor3 \<Rightarrow> error + tensor3" where
  "einsum_mnz_zmk A B =
     (case (bcast (dim0 A) (dim1 B), bcast (dim2 A) (dim0 B)) of
        (Some m, Some z) \<Rightarrow>
          Inr \<lparr>dim0 = z, dim1 = dim1 A, dim2 = dim2 B,
               tdtype = promote_types (tdtype A) (tdtype B),
               elt3 = \<lambda>zz nn kk. \<Sum>mm<m.
                        elt3 A (bidx (dim0 A) mm) nn (bidx (dim2 A) zz)
                        * elt3 B (bidx (dim0 B) zz) (bidx (dim1 B) mm) kk\<rparr>
      | _ \<Rightarrow> Inl NumpyError)"

text \<open>
  \<^verbatim>\<open>arrRes[:] = V\<close>: \<open>V\<close> is stretched to the shape of \<open>arrRes\<close> and
  stored in its element type.
\<close>

definition assign_all :: "ndarray \<Rightarrow> ndarray \<Rightarrow> error + ndarray" where
  "assign_all arrRes V =
     (if (shape0 V = shape0 arrRes \<or> shape0 V = 1) \<and> (shape1 V = shape1 arrRes \<or> shape1 V = 1)
      then Inr (arrRes\<lparr>elt := \<lambda>i j. store (adtype arrRes)
                                      (elt V (bidx (shape0 V) i) (bidx (shape1 V) j))\<rparr>)
      else Inl NumpyError)"

subsection \<open>\<^verbatim>\<open>_forwardC\<close> and \<^verbatim>\<open>_backwardC\<close>\<close>

definition DiagBlocks_forwardC :: "diagblocks \<Rightarrow> ndarray \<Rightarrow> ndarray \<Rightarrow> error + ndarray" where
  "DiagBlocks_forwardC self arrX arrRes =
     (case reshape3F arrX (numDiagsM self) (shape1 arrX) of
        Inl e \<Rightarrow> Inl e
      | Inr X3 \<Rightarrow>
          (case einsum_nmz_zmk (tenDiags self) X3 of
             Inl e \<Rightarrow> Inl e
           | Inr E \<Rightarrow>
               (case reshape2F E (shape1 arrX) of
                  Inl e \<Rightarrow> Inl e
                | Inr V \<Rightarrow> assign_all arrRes V)))"

definition DiagBlocks_backwardC :: "diagblocks \<Rightarrow> ndarray \<Rightarrow> ndarray \<Rightarrow> error + ndarray" where
  "DiagBlocks_backwardC self arrX arrRes =
     (case reshape3F arrX (numDiagsM self) (shape1 arrX) of
        Inl e \<Rightarrow> Inl e
      | Inr X3 \<Rightarrow>
          (case einsum_mnz_zmk (conj3 (tenDiags self)) X3 of
             Inl e \<Rightarrow> Inl e
           | Inr E \<Rightarrow>
               (case reshape2F E (shape1 arrX) of
                  Inl e \<Rightarrow> Inl e
                | Inr V \<Rightarrow> assign_all arrRes V)))"

definition np_zeros :: "nat \<Rightarrow> nat \<Rightarrow> dtype \<Rightarrow> ndarray" where
  "np_zeros n m d = \<lparr>shape0 = n, shape1 = m, adtype = d, elt = \<lambda>i j. 0\<rparr>"

text \<open>
  Modelled from the spec: the public \<^verbatim>\<open>forward\<close> and \<^verbatim>\<open>backward\<close> of the
  base class \<^verbatim>\<open>Matrix\<close>, which is not part of the sources.  An input batch
  whose row count differs from \<open>numM\<close> (\<open>numN\<close> for \<^verbatim>\<open>backward\<close>) is
  refused; otherwise the output array of \<open>numN\<close> (\<open>numM\<close>) rows and as many
  columns as the input is allocated in the promoted type and handed to
  \<^verbatim>\<open>_forwardC\<close> (\<^verbatim>\<open>_backwardC\<close>).
\<close>

definition DiagBlocks_forward :: "diagblocks \<Rightarrow> ndarray \<Rightarrow> error + ndarray" where
  "DiagBlocks_forward self arrX =
     (if shape0 arrX \<noteq> d_numM self then Inl EvaluationShapeError
      else DiagBlocks_forwardC self arrX
             (np_zeros (d_numN self) (shape1 arrX) (promote_types (adtype arrX) (d_dtype self))))"

definition DiagBlocks_backward :: "diagblocks \<Rightarrow> ndarray \<Rightarrow> error + ndarray" where
  "DiagBlocks_backward self arrX =
     (if shape0 arrX \<noteq> d_numN self then Inl EvaluationShapeError
      else DiagBlocks_backwardC self arrX
             (np_zeros (d_numM self) (shape1 arrX) (promote_types (adtype arrX) (d_dtype self))))"

subsection \<open>\<^verbatim>\<open>_reference\<close>\<close>

text \<open>\<^verbatim>\<open>np.diag(self._tenDiags[nn, mm, :])\<close>\<close>

definition diag_of :: "tensor3 \<Rightarrow> nat \<Rightarrow> nat \<Rightarrow> error + ndarray" where
  "diag_of T nn mm =
     (if nn < dim0 T \<and> mm < dim1 T
      then Inr \<lparr>shape0 = dim2 T, shape1 = dim2 T, adtype = tdtype T,
               elt = \<lambda>i j. if i = j then elt3 T nn mm i else 0\<rparr>
      else Inl IndexError)"

text \<open>
  \<^verbatim>\<open>arrRes[r0:r1, c0:c1] = V\<close>: the slice is cut to the shape of
  \<open>arrRes\<close>, \<open>V\<close> is stretched to the slice and stored in the element
  type of \<open>arrRes\<close>.
\<close>

definition assign_slice :: "ndarray \<Rightarrow> nat \<Rightarrow> nat \<Rightarrow> nat \<Rightarrow> nat \<Rightarrow> ndarray \<Rightarrow> error + ndarray" where
  "assign_slice arrRes r0 r1 c0 c1 V =
     (let r0' = min r0 (shape0 arrRes); r1' = min r1 (shape0 arrRes);
          c0' = min c0 (shape1 arrRes); c1' = min c1 (shape1 arrRes)
      in if (shape0 V = r1' - r0' \<or> shape0 V = 1) \<and> (shape1 V = c1' - c0' \<or> shape1 V = 1)
         then Inr (arrRes\<lparr>elt := \<lambda>i j.
                      if r0' \<le> i \<and> i < r1' \<and> c0' \<le> j \<and> j < c1'
                      then store (adtype arrRes)
                             (elt V (bidx (shape0 V) (i - r0')) (bidx (shape1 V) (j - c0')))
                      else elt arrRes i j\<rparr>)
         else Inl NumpyError)"

text \<open>\<^verbatim>\<open>for mm in range(self._numDiagsM): ...\<close>, for the block row \<open>nn\<close>.\<close>

fun reference_cols :: "diagblocks \<Rightarrow> nat \<Rightarrow> nat list \<Rightarrow> ndarray \<Rightarrow> error + ndarray" where
  "reference_cols self nn [] arrRes = Inr arrRes"
| "reference_cols self nn (mm # mms) arrRes =
     (case diag_of (tenDiags self) nn mm of
        Inl e \<Rightarrow> Inl e
      | Inr V \<Rightarrow>
          (case assign_slice arrRes
                  (nn * numDiagsSize self) ((nn + 1) * numDiagsSize self)
                  (mm * numDiagsSize self) ((mm + 1) * numDiagsSize self) V of
             Inl e \<Rightarrow> Inl e
           | Inr r \<Rightarrow> reference_cols self nn mms r))"

text \<open>\<^verbatim>\<open>for nn in range(self._numDiagsN): ...\<close>\<close>

fun reference_rows :: "diagblocks \<Rightarrow> nat list \<Rightarrow> ndarray \<Rightarrow> error + ndarray" where
  "reference_rows self [] arrRes = Inr arrRes"
| "reference_rows self (nn # nns) arrRes =
     (case reference_cols self nn [0..<numDiagsM self] arrRes of
        Inl e \<Rightarrow> Inl e
      | Inr r \<Rightarrow> reference_rows self nns r)"

definition DiagBlocks_reference :: "diagblocks \<Rightarrow> error + ndarray" where
  "DiagBlocks_reference self =
     reference_rows self [0..<numDiagsN self]
       (np_zeros (d_numN self) (d_numM self) (d_dtype self))"

section \<open>Notions of the specification\<close>

text \<open>
  The terms of a construction in the order in which the flattening meets
  them: the operators, the scalars and the element types.  A nested Product
  contributes its own factors, and its scalar when that differs from one.
\<close>

fun leaves_of :: "factor list \<Rightarrow> operator list" where
  "leaves_of [] = []"
| "leaves_of (Scalar s # fs) = leaves_of fs"
| "leaves_of (Op a # fs) = a # leaves_of fs"
| "leaves_of (Prod p # fs) = p_content p @ leaves_of fs"
| "leaves_of (NonMatrix # fs) = leaves_of fs"

fun scalars_of :: "factor list \<Rightarrow> npscalar list" where
  "scalars_of [] = []"
| "scalars_of (Scalar s # fs) = s # scalars_of fs"
| "scalars_of (Op a # fs) = scalars_of fs"
| "scalars_of (Prod p # fs) =
     (if sval (p_scalar p) \<noteq> 1 then [p_scalar p] else []) @ scalars_of fs"
| "scalars_of (NonMatrix # fs) = scalars_of fs"

fun dtypes_of :: "factor list \<Rightarrow> dtype list" where
  "dtypes_of [] = []"
| "dtypes_of (Scalar s # fs) = sdtype s # dtypes_of fs"
| "dtypes_of (Op a # fs) = dtype a # dtypes_of fs"
| "dtypes_of (Prod p # fs) =
     (if sval (p_scalar p) \<noteq> 1 then [sdtype (p_scalar p)] else [])
       @ map dtype (p_content p) @ dtypes_of fs"
| "dtypes_of (NonMatrix # fs) = dtypes_of fs"

text \<open>Every factor's \<open>numM\<close> is the next factor's \<open>numN\<close>.\<close>

fun chained :: "operator list \<Rightarrow> bool" where
  "chained [] = True"
| "chained [a] = True"
| "chained (a # b # cs) = (numM a = numN b \<and> chained (b # cs))"

text \<open>The element type of a Product, from the promoted type of its terms.\<close>

definition final_dtype :: "(dtype \<Rightarrow> dtype) \<Rightarrow> type_expansion \<Rightarrow> dtype \<Rightarrow> dtype" where
  "final_dtype ste opt dt =
     (case opt of Default \<Rightarrow> promote_types dt (ste dt) | NoExpansion \<Rightarrow> dt
      | Expand t \<Rightarrow> promote_types dt t)"

text \<open>
  \<open>chain_fwd [A1, ..., Ak] Y\<close> is \<open>A1.forward(A2.forward(... Ak.forward(Y)))\<close>,
  \<open>chain_bwd [A1, ..., Ak] Y\<close> is \<open>Ak.backward(... A2.backward(A1.backward(Y)))\<close>;
  an error of a factor ends the chain.
\<close>

fun chain_fwd :: "operator list \<Rightarrow> ndarray \<Rightarrow> error + ndarray" where
  "chain_fwd [] Y = Inr Y"
| "chain_fwd (A # As) Y =
     (case chain_fwd As Y of Inl e \<Rightarrow> Inl e | Inr Z \<Rightarrow> forward A Z)"




subsection \<open>Sample operators\<close>

text \<open>
  An operator given by a dense array, with matrix multiplication as its
  transforms; \<open>full n m d v\<close> is the array with every element \<open>v\<close>.
\<close>

definition hermitian :: "ndarray \<Rightarrow> ndarray" where
  "hermitian A = \<lparr>shape0 = shape1 A, shape1 = shape0 A, adtype = adtype A,
                  elt = \<lambda>i j. cnj (elt A j i)\<rparr>"

definition denseOperator :: "ndarray \<Rightarrow> operator" where
  "denseOperator A =
     \<lparr>numN = shape0 A, numM = shape1 A, dtype = adtype A,
      forward = dot A, backward = dot (hermitian A), reference = A\<rparr>"

definition full :: "nat \<Rightarrow> nat \<Rightarrow> dtype \<Rightarrow> complex \<Rightarrow> ndarray" where
  "full n m d v = \<lparr>shape0 = n, shape1 = m, adtype = d, elt = \<lambda>i j. v\<rparr>"

definition opA :: operator where "opA = denseOperator (full 2 3 Float64 1)"
definition opB :: operator where "opB = denseOperator (full 3 1 Float64 1)"
definition prodAB :: product where
  "prodAB = \<lparr>p_scalar = \<lparr>sdtype = Float64, sval = 2\<rparr>, p_content = [opA, opB],
             p_numN = 2, p_numM = 1, p_dtype = Float64, p_forwardReferenceMatrix = None\<rparr>"

definition opC :: operator where "opC = denseOperator (full 4 5 Float64 1)"

definition prodI :: product where
  "prodI = \<lparr>p_scalar = \<lparr>sdtype = Complex128, sval = \<i>\<rparr>, p_content = [opA, opB],
            p_numN = 2, p_numM = 1, p_dtype = Complex128, p_forwardReferenceMatrix = None\<rparr>"

definition opD :: operator where "opD = denseOperator (full 1 2 Float64 1)"


definition opE :: operator where "opE = denseOperator (full 1 1 Float64 1)"

definition prodE :: product where
  "prodE = \<lparr>p_scalar = \<lparr>sdtype = Float64, sval = 2\<rparr>, p_content = [opE],
            p_numN = 1, p_numM = 1, p_dtype = Float64, p_forwardReferenceMatrix = None\<rparr>"

text \<open>An entry of \<^verbatim>\<open>content\<close> that is a scalar.\<close>

fun is_scalar :: "factor \<Rightarrow> bool" where
  "is_scalar (Scalar s) = True"
| "is_scalar _ = False"



text \<open>
  The elements of a tensor are values of its element type.
\<close>

definition tensor_ok :: "tensor3 \<Rightarrow> bool" where
  "tensor_ok T =
     (\<forall>a<dim0 T. \<forall>b<dim1 T. \<forall>c<dim2 T. store (tdtype T) (elt3 T a b c) = elt3 T a b c)"

text \<open>
  What the dense reference holds at row \<open>i\<close> and column \<open>j\<close>: the element
  of the diagonal of the block that the position lies in, or zero.
\<close>

definition block_value :: "tensor3 \<Rightarrow> nat \<Rightarrow> nat \<Rightarrow> complex" where
  "block_value T i j =
     store (tdtype T)
       (if i mod dim2 T = j mod dim2 T then elt3 T (i div dim2 T) (j div dim2 T) (i mod dim2 T) else 0)"

definition tensorT :: tensor3 where
  "tensorT = \<lparr>dim0 = 2, dim1 = 3, dim2 = 2, tdtype = Complex128,
              elt3 = \<lambda>a b c. Complex (of_nat (a + 2 * b)) (of_nat c)\<rparr>"

text \<open>
  Products that are operands of a further Product, with scalars of 8 bits,
  and an operator that meets the shape contract and returns 8-bit integers.
\<close>

definition opI :: operator where "opI = denseOperator (full 1 1 Int8 1)"

definition prodA :: product where
  "prodA = \<lparr>p_scalar = \<lparr>sdtype = Int8, sval = 100\<rparr>, p_content = [opI],
            p_numN = 1, p_numM = 1, p_dtype = Int8, p_forwardReferenceMatrix = None\<rparr>"

definition prodC :: product where
  "prodC = \<lparr>p_scalar = \<lparr>sdtype = Int8, sval = 2\<rparr>, p_content = [opI],
            p_numN = 1, p_numM = 1, p_dtype = Int8, p_forwardReferenceMatrix = None\<rparr>"

definition prodQ :: product where
  "prodQ = \<lparr>p_scalar = \<lparr>sdtype = Float32, sval = 100\<rparr>, p_content = [opI, opI],
            p_numN = 1, p_numM = 1, p_dtype = Float32, p_forwardReferenceMatrix = None\<rparr>"

definition prodNested :: product where
  "prodNested = \<lparr>p_scalar = \<lparr>sdtype = Float32, sval = 200\<rparr>, p_content = [opI, opI, opI],
            p_numN = 1, p_numM = 1, p_dtype = Float32, p_forwardReferenceMatrix = None\<rparr>"

definition prodFlat :: product where
  "prodFlat = \<lparr>p_scalar = \<lparr>sdtype = Int8, sval = - 56\<rparr>, p_content = [opI, opI, opI],
            p_numN = 1, p_numM = 1, p_dtype = Int8, p_forwardReferenceMatrix = None\<rparr>"



section \<open>Construction\<close>

lemma leaves_of_map_Op [simp]: "leaves_of (map Op xs) = xs"
  by (induction xs) auto
lemma scalars_of_map_Op [simp]: "scalars_of (map Op xs) = []"
  by (induction xs) auto
lemma dtypes_of_map_Op [simp]: "dtypes_of (map Op xs) = map dtype xs"
  by (induction xs) auto
lemma NonMatrix_notin_content [simp]: "NonMatrix \<notin> set (content p)"
  by (auto simp: content_def)
lemma leaves_of_content [simp]: "leaves_of (content p) = p_content p"
  by (simp add: content_def)
lemma scalars_of_content [simp]:
  "scalars_of (content p) = (if sval (p_scalar p) \<noteq> 1 then [p_scalar p] else [])"
  by (simp add: content_def)
lemma dtypes_of_content [simp]:
  "dtypes_of (content p) = (if sval (p_scalar p) \<noteq> 1 then [sdtype (p_scalar p)] else []) @ map dtype (p_content p)"
  by (simp add: content_def)

lemma addFactors_eq:
  "addFactors fs st =
     (if NonMatrix \<in> set fs then Inl (TypeError ''Product has non-fastmat-matrix terms.'')
      else Inr \<lparr>datatype0 = foldl promote_types (datatype0 st) (dtypes_of fs),
                scalar = foldl inner_ss (scalar st) (scalars_of fs),
                lstFactors = lstFactors st @ leaves_of fs\<rparr>)"
proof (induction fs st rule: addFactors.induct)
  case (1 st)
  then show ?case by simp
next
  case (2 s factors st)
  then show ?case by (simp add: promoteType_def)
next
  case (3 factors st)
  then show ?case by simp
next
  case (4 p factors st)
  then show ?case by (simp add: promoteType_def)
next
  case (5 a factors st)
  then show ?case by (simp add: promoteType_def)
qed

lemma checkDims_Inr:
  "checkDims fs ii n (numM f0) = Inr m \<longleftrightarrow> chained (f0 # fs) \<and> m = numM (last (f0 # fs))"
  by (induction fs arbitrary: ii f0) auto

lemma Product_init_Inr:
  assumes "Product_init ste ts opt = Inr P"
  shows "NonMatrix \<notin> set ts"
    and "p_content P = leaves_of ts"
    and "p_content P \<noteq> []"
    and "chained (p_content P)"
    and "p_numN P = numN (hd (p_content P))"
    and "p_numM P = numM (last (p_content P))"
    and "p_dtype P = final_dtype ste opt (foldl promote_types Int8 (dtypes_of ts))"
    and "p_scalar P = astype_s (foldl inner_ss \<lparr>sdtype = Int8, sval = 1\<rparr> (scalars_of ts)) (p_dtype P)"
    and "p_forwardReferenceMatrix P = None"
  using assms
  by (auto simp: Product_init_def addFactors_eq Let_def final_dtype_def checkDims_Inr
           split: if_splits list.splits sum.splits type_expansion.splits)




lemma wrap_small [simp]: "wrap 64 2 = 2" "wrap 64 6 = 6"
  by (simp_all add: wrap_def)

lemma prodAB_init:
  "Product_init id [Scalar \<lparr>sdtype = Int64, sval = 2\<rparr>, Op opA, Op opB] Default = Inr prodAB"
  by (simp add: Product_init_def promoteType_def inner_ss_def astype_s_def prodAB_def opA_def opB_def
        denseOperator_def full_def trunc_def Let_def)

section \<open>Forward and backward transform of a Product\<close>

lemma chain_fwd_snoc:
  "chain_fwd (xs @ [a]) Y = (case forward a Y of Inl e \<Rightarrow> Inl e | Inr r \<Rightarrow> chain_fwd xs r)"
  by (induction xs) (auto split: sum.splits)

lemma forward_loop_chain:
  "forward_loop cs ii Y = chain_fwd (take (length cs - ii) cs) Y"
proof (induction cs ii Y rule: forward_loop.induct)
  case (1 cs ii arrRes)
  show ?case
  proof (cases "ii < length cs")
    case True
    define k where "k = length cs - 1 - ii"
    from True have k: "length cs - ii = Suc k" "length cs - (ii + 1) = k" "k < length cs"
      by (simp_all add: k_def)
    have tk: "take (length cs - ii) cs = take (length cs - (ii + 1)) cs @ [cs ! (length cs - 1 - ii)]"
      unfolding k k_def [symmetric] using k(3) by (rule take_Suc_conv_app_nth)
    show ?thesis
      using True 1
      by (subst forward_loop.simps) (auto simp: tk chain_fwd_snoc Let_def split: sum.splits)
  next
    case False
    then show ?thesis by (subst forward_loop.simps) simp
  qed
qed









lemma prodI_init:
  "Product_init id [Scalar \<lparr>sdtype = Complex128, sval = \<i>\<rparr>, Op opA, Op opB] NoExpansion = Inr prodI"
  by (simp add: Product_init_def promoteType_def inner_ss_def astype_s_def prodI_def opA_def opB_def
        denseOperator_def full_def Let_def)


section \<open>Dimension check\<close>

lemma checkDims_Inl:
  assumes "i < length fs"
    and "numN (fs ! i) \<noteq> numM ((f0 # fs) ! i)"
    and "\<forall>j<i. numN (fs ! j) = numM ((f0 # fs) ! j)"
  shows "checkDims fs ii n (numM f0) = Inl (DimensionError (ii + i) n (numM ((f0 # fs) ! i)))"
  using assms
proof (induction fs arbitrary: i ii f0)
  case Nil
  then show ?case by simp
next
  case (Cons f fs)
  show ?case
  proof (cases i)
    case 0
    with Cons.prems show ?thesis by simp
  next
    case (Suc k)
    from Cons.prems(3) Suc have hd_ok: "numN f = numM f0" by auto
    have "checkDims fs (ii + 1) n (numM f) = Inl (DimensionError (ii + 1 + k) n (numM ((f # fs) ! k)))"
    proof (rule Cons.IH)
      show "k < length fs" using Cons.prems(1) Suc by simp
      show "numN (fs ! k) \<noteq> numM ((f # fs) ! k)" using Cons.prems(2) Suc by simp
      show "\<forall>j<k. numN (fs ! j) = numM ((f # fs) ! j)"
        using Cons.prems(3) Suc by auto
    qed
    with hd_ok Suc show ?thesis by simp
  qed
qed

text \<open>
  C5 (as the code has it): when the terms flatten to a factor sequence in
  which factor \<open>i\<close> and factor \<open>i + 1\<close> are the first adjacent pair with
  \<open>content[i].numM \<noteq> content[i+1].numN\<close>, the construction fails with the
  dimension error that carries the index \<open>i + 1\<close>, the row count of the
  first factor and \<open>content[i].numM\<close>; no Product is returned.
\<close>

theorem Product_init_dimension_error:
  assumes "NonMatrix \<notin> set ts"
    and "i + 1 < length (leaves_of ts)"
    and "numM (leaves_of ts ! i) \<noteq> numN (leaves_of ts ! (i + 1))"
    and "\<forall>j<i. numM (leaves_of ts ! j) = numN (leaves_of ts ! (j + 1))"
  shows "Product_init safeTypeExpansion ts opt
           = Inl (DimensionError (i + 1) (numN (leaves_of ts ! 0)) (numM (leaves_of ts ! i)))"
proof -
  from assms(2) obtain f0 fs where cs: "leaves_of ts = f0 # fs"
    by (cases "leaves_of ts") auto
  have "checkDims fs 1 (numN f0) (numM f0)
          = Inl (DimensionError (1 + i) (numN f0) (numM ((f0 # fs) ! i)))"
  proof (rule checkDims_Inl)
    show "i < length fs" using assms(2) cs by simp
    show "numN (fs ! i) \<noteq> numM ((f0 # fs) ! i)" using assms(3) cs by simp
    show "\<forall>j<i. numN (fs ! j) = numM ((f0 # fs) ! j)" using assms(4) cs by simp
  qed
  then show ?thesis
    using assms(1) cs by (simp add: Product_init_def addFactors_eq Let_def)
qed

theorem Product_init_dimension_error_witness:
  "leaves_of [Op opA, Op opB, Op opC] = [opA, opB, opC]
   \<and> numM opA = numN opB
   \<and> numM opB \<noteq> numN opC
   \<and> Product_init id [Op opA, Op opB, Op opC] Default
        = Inl (DimensionError 2 (numN opA) (numM opB))
   \<and> numN opA = 2 \<and> numM opB = 1"
proof -
  let ?ts = "[Op opA, Op opB, Op opC]"
  have h1: "NonMatrix \<notin> set ?ts" by simp
  have h2: "1 + 1 < length (leaves_of ?ts)" by simp
  have h3: "numM (leaves_of ?ts ! 1) \<noteq> numN (leaves_of ?ts ! (1 + 1))"
    by (simp add: opB_def opC_def denseOperator_def full_def)
  have h4: "\<forall>j<1. numM (leaves_of ?ts ! j) = numN (leaves_of ?ts ! (j + 1))"
    by (simp add: opA_def opB_def denseOperator_def full_def)
  from Product_init_dimension_error [OF h1 h2 h3 h4, of id Default]
  show ?thesis
    by (simp add: opA_def opB_def opC_def denseOperator_def full_def)
qed

text \<open>
  The error of \<^verbatim>\<open>Product(A, C)\<close> for a 2 x 3 operator \<open>A\<close> and a 4 x 5
  operator \<open>C\<close> carries the sizes 2 and 3: the size 4 of \<open>C.numN\<close> that
  failed to match is not in it.
\<close>

theorem dimension_error_sizes_counterexample:
  "Product_init id [Op opA, Op opC] Default = Inl (DimensionError 1 2 3)
   \<and> numN opA = 2 \<and> numM opA = 3 \<and> numN opC = 4
   \<and> Product_init id [Op opA, Op opC] Default \<noteq> Inl (DimensionError 1 (numM opA) (numN opC))"
  by (simp add: Product_init_def promoteType_def opA_def opC_def denseOperator_def full_def Let_def)

section \<open>Flattening\<close>

lemma store_small [simp]: "store d 1 = 1" "store d 2 = 2" "store d 6 = 6"
  by (cases d; simp add: wrap_def trunc_def)+

lemma content_unit: "sval (p_scalar Q) = 1 \<Longrightarrow> content Q = map Op (p_content Q)"
  by (simp add: content_def)

text \<open>
  C6 (as the code has it): for compatible operators \<open>A\<close>, \<open>B\<close>, \<open>C\<close>
  that are not themselves Products, the nested construction
  \<^verbatim>\<open>Product(Product(A, B), C)\<close> and the flat construction
  \<^verbatim>\<open>Product(A, B, C)\<close> return the same Product: the same \<^verbatim>\<open>content\<close> in
  the same order, the same scalar, and the same forward and backward results
  on every input.
\<close>

theorem flattening_nested_flat:
  assumes "numM A = numN B" and "numM B = numN C"
  shows "\<exists>Q P1 P2.
           Product_init safeTypeExpansion [Op A, Op B] opt' = Inr Q
         \<and> Product_init safeTypeExpansion [Prod Q, Op C] opt = Inr P1
         \<and> Product_init safeTypeExpansion [Op A, Op B, Op C] opt = Inr P2
         \<and> P1 = P2
         \<and> p_content P1 = [A, B, C] \<and> p_content P2 = [A, B, C]
         \<and> content P1 = content P2
         \<and> p_scalar P1 = p_scalar P2
         \<and> (\<forall>X. Product_forward P1 X = Product_forward P2 X)
         \<and> (\<forall>X. Product_backward P1 X = Product_backward P2 X)"
proof -
  obtain Q where Q: "Product_init safeTypeExpansion [Op A, Op B] opt' = Inr Q"
    using assms(1)
    by (simp add: Product_init_def addFactors_eq Let_def)
  have Qc: "p_content Q = [A, B]" and Qs: "sval (p_scalar Q) = 1"
    using Product_init_Inr(2,8) [OF Q] by (simp_all add: astype_s_def)
  have cQ: "content Q = [Op A, Op B]"
    using Qc Qs by (simp add: content_unit)
  have same: "Product_init safeTypeExpansion [Prod Q, Op C] opt
            = Product_init safeTypeExpansion [Op A, Op B, Op C] opt"
    by (simp add: Product_init_def cQ promoteType_def)
  obtain P where P: "Product_init safeTypeExpansion [Op A, Op B, Op C] opt = Inr P"
    using assms
    by (simp add: Product_init_def addFactors_eq Let_def)
  have "p_content P = [A, B, C]"
    using Product_init_Inr(2) [OF P] by simp
  with Q P same show ?thesis by auto
qed

theorem flattening_nested_flat_witness:
  "numM opA = numN opB \<and> numM opB = numN opD
   \<and> (\<exists>Q P1 P2.
           Product_init id [Op opA, Op opB] (Expand Complex128) = Inr Q
         \<and> Product_init id [Prod Q, Op opD] Default = Inr P1
         \<and> Product_init id [Op opA, Op opB, Op opD] Default = Inr P2
         \<and> P1 = P2
         \<and> p_content P1 = [opA, opB, opD] \<and> p_content P2 = [opA, opB, opD]
         \<and> content P1 = content P2
         \<and> p_scalar P1 = p_scalar P2
         \<and> (\<forall>X. Product_forward P1 X = Product_forward P2 X)
         \<and> (\<forall>X. Product_backward P1 X = Product_backward P2 X))"
proof -
  have h1: "numM opA = numN opB" by (simp add: opA_def opB_def denseOperator_def full_def)
  have h2: "numM opB = numN opD" by (simp add: opB_def opD_def denseOperator_def full_def)
  from flattening_nested_flat [OF h1 h2, where safeTypeExpansion = id
         and opt' = "Expand Complex128" and opt = Default] h1 h2
  show ?thesis by blast
qed

text \<open>
  With Products as operands the two constructions differ.  Let \<open>PA\<close> be
  \<^verbatim>\<open>Product(np.int8(100), I, typeExpansion=None)\<close> and \<open>PC\<close> be
  \<^verbatim>\<open>Product(np.int8(2), I, typeExpansion=None)\<close> for a 1 x 1 operator \<open>I\<close>
  of 8-bit integers.  The inner Product
  \<^verbatim>\<open>Product(PA, I, typeExpansion=np.float32)\<close> holds the scalar 100 as a
  32-bit float, so the nested construction multiplies in floats and has the
  scalar 200; the flat construction multiplies the two 8-bit scalars, which
  wraps to -56.
\<close>

lemma wrap_int8 [simp]: "wrap 8 100 = 100" "wrap 8 2 = 2" "wrap 8 200 = - 56" "wrap 8 (- 56) = - 56"
  by (simp_all add: wrap_def)

theorem flattening_product_operands_counterexample:
  "Product_init id [Scalar \<lparr>sdtype = Int8, sval = 100\<rparr>, Op opI] NoExpansion = Inr prodA
   \<and> Product_init id [Scalar \<lparr>sdtype = Int8, sval = 2\<rparr>, Op opI] NoExpansion = Inr prodC
   \<and> Product_init id [Prod prodA, Op opI] (Expand Float32) = Inr prodQ
   \<and> Product_init id [Prod prodQ, Prod prodC] NoExpansion = Inr prodNested
   \<and> Product_init id [Prod prodA, Op opI, Prod prodC] NoExpansion = Inr prodFlat
   \<and> sval (p_scalar prodNested) = 200
   \<and> sval (p_scalar prodFlat) = - 56
   \<and> p_scalar prodNested \<noteq> p_scalar prodFlat
   \<and> content prodNested \<noteq> content prodFlat"
proof -
  have a: "Product_init id [Scalar \<lparr>sdtype = Int8, sval = 100\<rparr>, Op opI] NoExpansion = Inr prodA"
    by (simp add: Product_init_def promoteType_def inner_ss_def astype_s_def prodA_def opI_def
          denseOperator_def full_def trunc_def Let_def)
  have c: "Product_init id [Scalar \<lparr>sdtype = Int8, sval = 2\<rparr>, Op opI] NoExpansion = Inr prodC"
    by (simp add: Product_init_def promoteType_def inner_ss_def astype_s_def prodC_def opI_def
          denseOperator_def full_def trunc_def Let_def)
  have cA: "content prodA = [Scalar \<lparr>sdtype = Int8, sval = 100\<rparr>, Op opI]"
    by (simp add: content_def prodA_def)
  have cC: "content prodC = [Scalar \<lparr>sdtype = Int8, sval = 2\<rparr>, Op opI]"
    by (simp add: content_def prodC_def)
  have cQ: "content prodQ = [Scalar \<lparr>sdtype = Float32, sval = 100\<rparr>, Op opI, Op opI]"
    by (simp add: content_def prodQ_def)
  have q: "Product_init id [Prod prodA, Op opI] (Expand Float32) = Inr prodQ"
    by (simp add: Product_init_def cA promoteType_def inner_ss_def astype_s_def prodQ_def opI_def
          denseOperator_def full_def trunc_def Let_def)
  have n: "Product_init id [Prod prodQ, Prod prodC] NoExpansion = Inr prodNested"
    by (simp add: Product_init_def cQ cC promoteType_def inner_ss_def astype_s_def prodNested_def
          opI_def denseOperator_def full_def trunc_def Let_def)
  have f: "Product_init id [Prod prodA, Op opI, Prod prodC] NoExpansion = Inr prodFlat"
    by (simp add: Product_init_def cA cC promoteType_def inner_ss_def astype_s_def prodFlat_def
          opI_def denseOperator_def full_def trunc_def Let_def)
  have s: "sval (p_scalar prodNested) = 200" "sval (p_scalar prodFlat) = - 56"
          "p_scalar prodNested \<noteq> p_scalar prodFlat"
    by (simp_all add: prodNested_def prodFlat_def)
  have d: "content prodNested \<noteq> content prodFlat"
    by (simp add: content_def prodNested_def prodFlat_def)
  from a c q n f s d show ?thesis by blast
qed



section \<open>The property \<^verbatim>\<open>content\<close> of a constructed Product\<close>

lemma filter_is_scalar_map_Op [simp]:
  "filter is_scalar (map Op xs) = []" "filter (\<lambda>f. \<not> is_scalar f) (map Op xs) = map Op xs"
  by (induction xs) auto

text \<open>
  C9 (as the code has it): the \<^verbatim>\<open>content\<close> of a constructed Product is
  an ordered sequence: the absorbed scalar coefficient as the first entry
  exactly when it differs from 1, then the operators of the flattened terms
  in their order, none of which is a scalar.
\<close>

theorem content_of_constructed:
  assumes "Product_init safeTypeExpansion ts opt = Inr P"
  shows "content P = (if sval (p_scalar P) \<noteq> 1 then [Scalar (p_scalar P)] else [])
                       @ map Op (leaves_of ts)
       \<and> filter is_scalar (content P)
           = (if sval (p_scalar P) \<noteq> 1 then [Scalar (p_scalar P)] else [])
       \<and> filter (\<lambda>f. \<not> is_scalar f) (content P) = map Op (leaves_of ts)
       \<and> p_scalar P = astype_s (foldl inner_ss \<lparr>sdtype = Int8, sval = 1\<rparr> (scalars_of ts)) (p_dtype P)
       \<and> leaves_of ts \<noteq> []"
  using Product_init_Inr(2,3,8) [OF assms]
  by (auto simp: content_def Let_def)

theorem content_of_constructed_witness:
  "Product_init id [Scalar \<lparr>sdtype = Complex128, sval = \<i>\<rparr>, Op opA, Op opB] NoExpansion = Inr prodI
   \<and> content prodI = [Scalar \<lparr>sdtype = Complex128, sval = \<i>\<rparr>, Op opA, Op opB]
   \<and> filter is_scalar (content prodI) = [Scalar \<lparr>sdtype = Complex128, sval = \<i>\<rparr>]
   \<and> filter (\<lambda>f. \<not> is_scalar f) (content prodI) = [Op opA, Op opB]"
proof -
  have "sval (p_scalar prodI) \<noteq> 1" "p_scalar prodI = \<lparr>sdtype = Complex128, sval = \<i>\<rparr>"
    by (simp_all add: prodI_def complex_eq_iff)
  with content_of_constructed [OF prodI_init] prodI_init
  show ?thesis by simp
qed

text \<open>
  The \<^verbatim>\<open>content\<close> of \<^verbatim>\<open>Product(2, A, B)\<close> starts with the scalar 2.
\<close>

theorem content_holds_scalar_counterexample:
  "Product_init id [Scalar \<lparr>sdtype = Int64, sval = 2\<rparr>, Op opA, Op opB] Default = Inr prodAB
   \<and> content prodAB = [Scalar \<lparr>sdtype = Float64, sval = 2\<rparr>, Op opA, Op opB]
   \<and> is_scalar (hd (content prodAB))"
  using prodAB_init by (simp add: content_def prodAB_def)

section \<open>Element type of the results\<close>

lemma promote_types_idem [simp]: "promote_types a a = a"
  by (cases a) simp_all

lemma promote_types_commute: "promote_types a b = promote_types b a"
  by (cases a; cases b; simp)

lemma promote_types_assoc:
  "promote_types (promote_types a b) c = promote_types a (promote_types b c)"
  by (cases a; cases b; cases c; simp)

lemma dtype_le_refl [simp]: "dtype_le a a"
  by (simp add: dtype_le_def)


lemma dtype_le_promote2 [simp]: "dtype_le b (promote_types a b)"
  unfolding dtype_le_def by (metis promote_types_assoc promote_types_commute promote_types_idem)











section \<open>The cached reference transform\<close>

text \<open>
  The first call fills the cache with the reference of every factor; a later
  call finds it and computes the same.
\<close>

lemma forwardReference_repeat:
  assumes "p_forwardReferenceMatrix P = None"
  shows "p_forwardReferenceMatrix (snd (Product_forwardReference P X)) = Some (map reference (p_content P))"
    and "Product_forwardReference (snd (Product_forwardReference P X)) X'
           = (fst (Product_forwardReference P X'), snd (Product_forwardReference P X))"
  using assms
  by (simp_all add: Product_forwardReference_def Product_forwardReferenceInit_def Let_def)

lemma prodE_init:
  "Product_init id [Scalar \<lparr>sdtype = Int64, sval = 2\<rparr>, Op opE] NoExpansion = Inr prodE"
  by (simp add: Product_init_def promoteType_def inner_ss_def astype_s_def prodE_def opE_def
        denseOperator_def full_def trunc_def Let_def)

text \<open>
  C4 at \<^verbatim>\<open>Product(2, E)\<close>, for the 1 x 1 operator \<open>E\<close> with the entry 1,
  and the 1 x 1 batch with the entry 1: \<^verbatim>\<open>_forwardReference\<close> returns 1,
  where \<^verbatim>\<open>_reference().dot(X)\<close> and \<^verbatim>\<open>_forward(X)\<close> return 2: the
  cached transform leaves the scalar out.
\<close>

theorem forwardReference_drops_scalar:
  "Product_init id [Scalar \<lparr>sdtype = Int64, sval = 2\<rparr>, Op opE] NoExpansion = Inr prodE
   \<and> (\<exists>Y. fst (Product_forwardReference prodE (full 1 1 Float64 1)) = Inr Y
          \<and> shape0 Y = 1 \<and> shape1 Y = 1 \<and> elt Y 0 0 = 1)
   \<and> (\<exists>R Z. Product_reference prodE = Inr R \<and> dot R (full 1 1 Float64 1) = Inr Z
          \<and> shape0 Z = 1 \<and> shape1 Z = 1 \<and> elt Z 0 0 = 2)
   \<and> (\<exists>Y. Product_forward prodE (full 1 1 Float64 1) = Inr Y
          \<and> shape0 Y = 1 \<and> shape1 Y = 1 \<and> elt Y 0 0 = 2)"
proof -
  have a: "\<exists>Y. fst (Product_forwardReference prodE (full 1 1 Float64 1)) = Inr Y
          \<and> shape0 Y = 1 \<and> shape1 Y = 1 \<and> elt Y 0 0 = 1"
    by (simp add: Product_forwardReference_def Product_forwardReferenceInit_def prodE_def opE_def
          denseOperator_def full_def dot_def Let_def)
  have b: "\<exists>R Z. Product_reference prodE = Inr R \<and> dot R (full 1 1 Float64 1) = Inr Z
          \<and> shape0 Z = 1 \<and> shape1 Z = 1 \<and> elt Z 0 0 = 2"
    by (simp add: Product_reference_def reference_loop.simps inner_as_def astype_s_def prodE_def
          opE_def denseOperator_def full_def dot_def Let_def)
  have c: "\<exists>Y. Product_forward prodE (full 1 1 Float64 1) = Inr Y
          \<and> shape0 Y = 1 \<and> shape1 Y = 1 \<and> elt Y 0 0 = 2"
    by (simp add: Product_forward_def forward_loop_chain inner_as_def prodE_def
          opE_def denseOperator_def full_def dot_def Let_def)
  from prodE_init a b c show ?thesis by blast
qed

section \<open>The dense reference of DiagBlocks\<close>

lemma block_iff:
  assumes "0 < (Z::nat)"
  shows "(nn * Z \<le> i \<and> i < (nn + 1) * Z) \<longleftrightarrow> i div Z = nn"
proof
  assume "nn * Z \<le> i \<and> i < (nn + 1) * Z"
  then show "i div Z = nn"
    by (intro div_nat_eqI) (simp_all add: mult.commute)
next
  assume "i div Z = nn"
  then show "nn * Z \<le> i \<and> i < (nn + 1) * Z"
    using assms dividend_less_div_times [of Z i] by (auto simp: algebra_simps)
qed

lemma store_zero [simp]: "store d 0 = 0"
  by (cases d) (simp_all add: wrap_def trunc_def)

lemma assign_block:
  assumes Z: "0 < dim2 T" and nn: "nn < dim0 T" and mm: "mm < dim1 T"
    and sh: "shape0 R = dim0 T * dim2 T" "shape1 R = dim1 T * dim2 T" and dt: "adtype R = tdtype T"
    and V: "diag_of T nn mm = Inr V"
  shows "\<exists>R'. assign_slice R (nn * dim2 T) ((nn + 1) * dim2 T) (mm * dim2 T) ((mm + 1) * dim2 T) V = Inr R'
            \<and> shape0 R' = shape0 R \<and> shape1 R' = shape1 R \<and> adtype R' = adtype R
            \<and> (\<forall>i j. elt R' i j = (if i div dim2 T = nn \<and> j div dim2 T = mm
                                    then block_value T i j else elt R i j))"
proof -
  let ?Z = "dim2 T"
  have r: "(nn + 1) * ?Z \<le> dim0 T * ?Z" "nn * ?Z \<le> dim0 T * ?Z"
    using nn by (simp_all add: Suc_leI mult_le_mono1 del: mult_Suc)
  have c: "(mm + 1) * ?Z \<le> dim1 T * ?Z" "mm * ?Z \<le> dim1 T * ?Z"
    using mm by (simp_all add: Suc_leI mult_le_mono1 del: mult_Suc)
  have Vd: "V = \<lparr>shape0 = ?Z, shape1 = ?Z, adtype = tdtype T,
               elt = \<lambda>i j. if i = j then elt3 T nn mm i else 0\<rparr>"
    using V nn mm by (simp add: diag_of_def)
  have m: "min (nn * ?Z) (shape0 R) = nn * ?Z" "min ((nn + 1) * ?Z) (shape0 R) = (nn + 1) * ?Z"
          "min (mm * ?Z) (shape1 R) = mm * ?Z" "min ((mm + 1) * ?Z) (shape1 R) = (mm + 1) * ?Z"
    using r c sh by (simp_all add: min_def del: mult_Suc)
  have w: "(nn + 1) * ?Z - nn * ?Z = ?Z" "(mm + 1) * ?Z - mm * ?Z = ?Z"
    by simp_all
  have val: "store (adtype R) (elt V (bidx (shape0 V) (i - nn * ?Z)) (bidx (shape1 V) (j - mm * ?Z)))
               = block_value T i j"
    if "i div ?Z = nn" "j div ?Z = mm" for i j
  proof -
    have i: "i - nn * ?Z = i mod ?Z" using that(1) by (simp add: minus_div_mult_eq_mod [symmetric])
    have j: "j - mm * ?Z = j mod ?Z" using that(2) by (simp add: minus_div_mult_eq_mod [symmetric])
    have b: "bidx ?Z (x mod ?Z) = x mod ?Z" for x
      by (simp add: bidx_def)
    show ?thesis
      using that by (simp add: Vd i j b block_value_def dt)
  qed
  show ?thesis
    unfolding assign_slice_def Let_def m w
    using val by (auto simp: Vd block_iff [OF Z, symmetric] simp del: mult_Suc)
qed

lemma reference_cols_blocks:
  assumes Z: "0 < dim2 T" and nn: "nn < dim0 T" and mms: "\<forall>mm\<in>set mms. mm < dim1 T"
    and sh: "shape0 R = dim0 T * dim2 T" "shape1 R = dim1 T * dim2 T" and dt: "adtype R = tdtype T"
  shows "\<exists>R'. reference_cols (DiagBlocks_init T) nn mms R = Inr R'
            \<and> shape0 R' = shape0 R \<and> shape1 R' = shape1 R \<and> adtype R' = adtype R
            \<and> (\<forall>i j. elt R' i j = (if i div dim2 T = nn \<and> j div dim2 T \<in> set mms
                                    then block_value T i j else elt R i j))"
  using mms sh dt
proof (induction mms arbitrary: R)
  case Nil
  then show ?case by simp
next
  case (Cons mm mms)
  have mm: "mm < dim1 T" using Cons.prems(1) by simp
  obtain V where V: "diag_of T nn mm = Inr V"
    using nn mm by (simp add: diag_of_def)
  from assign_block [OF Z nn mm Cons.prems(2,3,4) V]
  obtain R1 where R1:
    "assign_slice R (nn * dim2 T) ((nn + 1) * dim2 T) (mm * dim2 T) ((mm + 1) * dim2 T) V = Inr R1"
    "shape0 R1 = shape0 R" "shape1 R1 = shape1 R" "adtype R1 = adtype R"
    "\<forall>i j. elt R1 i j = (if i div dim2 T = nn \<and> j div dim2 T = mm
                          then block_value T i j else elt R i j)"
    by blast
  have "\<exists>R'. reference_cols (DiagBlocks_init T) nn mms R1 = Inr R'
            \<and> shape0 R' = shape0 R1 \<and> shape1 R' = shape1 R1 \<and> adtype R' = adtype R1
            \<and> (\<forall>i j. elt R' i j = (if i div dim2 T = nn \<and> j div dim2 T \<in> set mms
                                    then block_value T i j else elt R1 i j))"
    using Cons.prems R1(2,3,4) by (intro Cons.IH) simp_all
  then obtain R' where R':
    "reference_cols (DiagBlocks_init T) nn mms R1 = Inr R'"
    "shape0 R' = shape0 R1" "shape1 R' = shape1 R1" "adtype R' = adtype R1"
    "\<forall>i j. elt R' i j = (if i div dim2 T = nn \<and> j div dim2 T \<in> set mms
                          then block_value T i j else elt R1 i j)"
    by blast
  have "reference_cols (DiagBlocks_init T) nn (mm # mms) R = Inr R'"
    using V R1(1) R'(1) by (simp add: DiagBlocks_init_def)
  moreover have "\<forall>i j. elt R' i j = (if i div dim2 T = nn \<and> j div dim2 T \<in> set (mm # mms)
                          then block_value T i j else elt R i j)"
    using R'(5) R1(5) by auto
  ultimately show ?case using R1(2,3,4) R'(2,3,4) by simp
qed

lemma reference_rows_blocks:
  assumes Z: "0 < dim2 T" and nns: "\<forall>nn\<in>set nns. nn < dim0 T"
    and sh: "shape0 R = dim0 T * dim2 T" "shape1 R = dim1 T * dim2 T" and dt: "adtype R = tdtype T"
  shows "\<exists>R'. reference_rows (DiagBlocks_init T) nns R = Inr R'
            \<and> shape0 R' = shape0 R \<and> shape1 R' = shape1 R \<and> adtype R' = adtype R
            \<and> (\<forall>i j. elt R' i j = (if i div dim2 T \<in> set nns \<and> j div dim2 T < dim1 T
                                    then block_value T i j else elt R i j))"
  using nns sh dt
proof (induction nns arbitrary: R)
  case Nil
  then show ?case by simp
next
  case (Cons nn nns)
  have nn: "nn < dim0 T" using Cons.prems(1) by simp
  have "\<forall>mm\<in>set [0..<dim1 T]. mm < dim1 T" by simp
  from reference_cols_blocks [OF Z nn this Cons.prems(2,3,4)]
  obtain R1 where R1:
    "reference_cols (DiagBlocks_init T) nn [0..<dim1 T] R = Inr R1"
    "shape0 R1 = shape0 R" "shape1 R1 = shape1 R" "adtype R1 = adtype R"
    "\<forall>i j. elt R1 i j = (if i div dim2 T = nn \<and> j div dim2 T \<in> set [0..<dim1 T]
                          then block_value T i j else elt R i j)"
    by blast
  have "\<exists>R'. reference_rows (DiagBlocks_init T) nns R1 = Inr R'
            \<and> shape0 R' = shape0 R1 \<and> shape1 R' = shape1 R1 \<and> adtype R' = adtype R1
            \<and> (\<forall>i j. elt R' i j = (if i div dim2 T \<in> set nns \<and> j div dim2 T < dim1 T
                                    then block_value T i j else elt R1 i j))"
    using Cons.prems R1(2,3,4) by (intro Cons.IH) simp_all
  then obtain R' where R':
    "reference_rows (DiagBlocks_init T) nns R1 = Inr R'"
    "shape0 R' = shape0 R1" "shape1 R' = shape1 R1" "adtype R' = adtype R1"
    "\<forall>i j. elt R' i j = (if i div dim2 T \<in> set nns \<and> j div dim2 T < dim1 T
                          then block_value T i j else elt R1 i j)"
    by blast
  have "reference_rows (DiagBlocks_init T) (nn # nns) R = Inr R'"
    using R1(1) R'(1) by (simp add: DiagBlocks_init_def)
  moreover have "\<forall>i j. elt R' i j = (if i div dim2 T \<in> set (nn # nns) \<and> j div dim2 T < dim1 T
                          then block_value T i j else elt R i j)"
    using R'(5) R1(5) by auto
  ultimately show ?case using R1(2,3,4) R'(2,3,4) by simp
qed

lemma DiagBlocks_reference_positive:
  assumes "tensor_ok T" and "0 < dim2 T"
  shows "\<exists>R. DiagBlocks_reference (DiagBlocks_init T) = Inr R
           \<and> d_numN (DiagBlocks_init T) = dim0 T * dim2 T
           \<and> d_numM (DiagBlocks_init T) = dim1 T * dim2 T
           \<and> shape0 R = dim0 T * dim2 T \<and> shape1 R = dim1 T * dim2 T
           \<and> (\<forall>n<dim0 T. \<forall>m<dim1 T. \<forall>z<dim2 T. \<forall>z'<dim2 T.
                 elt R (n * dim2 T + z) (m * dim2 T + z')
                   = (if z = z' then elt3 T n m z else 0))"
proof -
  let ?R0 = "np_zeros (dim0 T * dim2 T) (dim1 T * dim2 T) (tdtype T)"
  have "\<forall>nn\<in>set [0..<dim0 T]. nn < dim0 T" by simp
  from reference_rows_blocks [OF assms(2) this, of ?R0]
  obtain R where R: "reference_rows (DiagBlocks_init T) [0..<dim0 T] ?R0 = Inr R"
    "shape0 R = dim0 T * dim2 T" "shape1 R = dim1 T * dim2 T"
    "\<forall>i j. elt R i j = (if i div dim2 T \<in> set [0..<dim0 T] \<and> j div dim2 T < dim1 T
                          then block_value T i j else elt ?R0 i j)"
    by (auto simp: np_zeros_def)
  have "elt R (n * dim2 T + z) (m * dim2 T + z') = (if z = z' then elt3 T n m z else 0)"
    if "n < dim0 T" "m < dim1 T" "z < dim2 T" "z' < dim2 T" for n m z z'
  proof -
    have "elt R (n * dim2 T + z) (m * dim2 T + z') = block_value T (n * dim2 T + z) (m * dim2 T + z')"
      using R(4) that by simp
    also have "\<dots> = store (tdtype T) (if z = z' then elt3 T n m z else 0)"
      using that by (simp add: block_value_def)
    also have "\<dots> = (if z = z' then elt3 T n m z else 0)"
      using assms(1) that by (simp add: tensor_ok_def)
    finally show ?thesis .
  qed
  with R(1,2,3) show ?thesis
    by (simp add: DiagBlocks_reference_def DiagBlocks_init_def)
qed

lemma reference_cols_empty:
  assumes "dim2 T = 0" "nn < dim0 T" "\<forall>mm\<in>set mms. mm < dim1 T"
  shows "reference_cols (DiagBlocks_init T) nn mms R = Inr R"
  using assms(3)
proof (induction mms)
  case Nil
  then show ?case by simp
next
  case (Cons mm mms)
  have "assign_slice R 0 0 0 0 \<lparr>shape0 = 0, shape1 = 0, adtype = tdtype T,
            elt = \<lambda>i j. if i = j then elt3 T nn mm i else 0\<rparr> = Inr R"
    by (simp add: assign_slice_def)
  with Cons assms(1,2) show ?case
    by (simp add: DiagBlocks_init_def diag_of_def)
qed

lemma reference_rows_empty:
  assumes "dim2 T = 0" "\<forall>nn\<in>set nns. nn < dim0 T"
  shows "reference_rows (DiagBlocks_init T) nns R = Inr R"
  using assms(2)
proof (induction nns)
  case Nil
  then show ?case by simp
next
  case (Cons nn nns)
  have "reference_cols (DiagBlocks_init T) nn [0..<dim1 T] R = Inr R"
    using assms(1) Cons.prems by (intro reference_cols_empty) simp_all
  moreover have "numDiagsM (DiagBlocks_init T) = dim1 T"
    by (simp add: DiagBlocks_init_def)
  ultimately show ?case using Cons by simp
qed

text \<open>
  C8: for a DiagBlocks built from a tensor of shape
  \<open>(blockRowCount, blockColCount, blockSize)\<close>, \<^verbatim>\<open>reference()\<close> returns a
  dense matrix of \<open>numN = blockRowCount * blockSize\<close> rows and
  \<open>numM = blockColCount * blockSize\<close> columns; the block at row offset
  \<open>n * blockSize\<close> and column offset \<open>m * blockSize\<close> is
  \<open>diag(diagTensor[n, m, :])\<close>, and every entry off those diagonals is zero.
\<close>

theorem DiagBlocks_reference_dense:
  assumes "tensor_ok T"
  shows "\<exists>R. DiagBlocks_reference (DiagBlocks_init T) = Inr R
           \<and> d_numN (DiagBlocks_init T) = dim0 T * dim2 T
           \<and> d_numM (DiagBlocks_init T) = dim1 T * dim2 T
           \<and> shape0 R = d_numN (DiagBlocks_init T) \<and> shape1 R = d_numM (DiagBlocks_init T)
           \<and> (\<forall>n<dim0 T. \<forall>m<dim1 T. \<forall>z<dim2 T. \<forall>z'<dim2 T.
                 elt R (n * dim2 T + z) (m * dim2 T + z')
                   = (if z = z' then elt3 T n m z else 0))
           \<and> (\<forall>i<dim0 T * dim2 T. \<forall>j<dim1 T * dim2 T.
                 elt R i j = (if i mod dim2 T = j mod dim2 T
                              then elt3 T (i div dim2 T) (j div dim2 T) (i mod dim2 T) else 0))"
proof (cases "0 < dim2 T")
  case True
  from DiagBlocks_reference_positive [OF assms True]
  obtain R where R: "DiagBlocks_reference (DiagBlocks_init T) = Inr R"
    "shape0 R = dim0 T * dim2 T" "shape1 R = dim1 T * dim2 T"
    "\<forall>n<dim0 T. \<forall>m<dim1 T. \<forall>z<dim2 T. \<forall>z'<dim2 T.
        elt R (n * dim2 T + z) (m * dim2 T + z') = (if z = z' then elt3 T n m z else 0)"
    by blast
  have "elt R i j = (if i mod dim2 T = j mod dim2 T
                     then elt3 T (i div dim2 T) (j div dim2 T) (i mod dim2 T) else 0)"
    if "i < dim0 T * dim2 T" "j < dim1 T * dim2 T" for i j
  proof -
    have "i div dim2 T < dim0 T" "j div dim2 T < dim1 T"
      using that True by (simp_all add: less_mult_imp_div_less)
    moreover have "i mod dim2 T < dim2 T" "j mod dim2 T < dim2 T"
      using True by simp_all
    ultimately have "elt R (i div dim2 T * dim2 T + i mod dim2 T) (j div dim2 T * dim2 T + j mod dim2 T)
        = (if i mod dim2 T = j mod dim2 T
           then elt3 T (i div dim2 T) (j div dim2 T) (i mod dim2 T) else 0)"
      using R(4) by blast
    then show ?thesis by simp
  qed
  with R show ?thesis
    by (auto simp: DiagBlocks_init_def)
next
  case False
  then have z: "dim2 T = 0" by simp
  have "reference_rows (DiagBlocks_init T) [0..<dim0 T] (np_zeros 0 0 (tdtype T))
          = Inr (np_zeros 0 0 (tdtype T))"
    using z by (intro reference_rows_empty) simp_all
  then show ?thesis
    using z by (simp add: DiagBlocks_reference_def DiagBlocks_init_def np_zeros_def)
qed

theorem DiagBlocks_reference_dense_witness:
  "tensor_ok tensorT
   \<and> (\<exists>R. DiagBlocks_reference (DiagBlocks_init tensorT) = Inr R
          \<and> shape0 R = 4 \<and> shape1 R = 6
          \<and> elt R 3 5 = Complex 5 1 \<and> elt R 2 5 = 0 \<and> elt R 0 2 = Complex 2 0)"
proof -
  have ok: "tensor_ok tensorT"
    by (simp add: tensor_ok_def tensorT_def)
  from DiagBlocks_reference_dense [OF ok]
  obtain R where R: "DiagBlocks_reference (DiagBlocks_init tensorT) = Inr R"
    "shape0 R = d_numN (DiagBlocks_init tensorT)" "shape1 R = d_numM (DiagBlocks_init tensorT)"
    "\<forall>n<dim0 tensorT. \<forall>m<dim1 tensorT. \<forall>z<dim2 tensorT. \<forall>z'<dim2 tensorT.
        elt R (n * dim2 tensorT + z) (m * dim2 tensorT + z')
          = (if z = z' then elt3 tensorT n m z else 0)"
    by blast
  have e: "elt R (n * 2 + z) (m * 2 + z') = (if z = z' then elt3 tensorT n m z else 0)"
    if "n < 2" "m < 3" "z < 2" "z' < 2" for n m z z'
    using R(4) that by (simp add: tensorT_def)
  have "elt R 3 5 = Complex 5 1"
    using e [of 1 2 1 1] by (simp add: tensorT_def)
  moreover have "elt R 2 5 = 0"
    using e [of 1 2 0 1] by (simp add: tensorT_def)
  moreover have "elt R 0 2 = Complex 2 0"
    using e [of 0 1 0 0] by (simp add: tensorT_def)
  moreover have "shape0 R = 4" "shape1 R = 6"
    using R(2,3) by (simp_all add: DiagBlocks_init_def tensorT_def)
  ultimately show ?thesis using ok R(1) by blast
qed

section \<open>The transforms of DiagBlocks\<close>

text \<open>
  Where the reshapes and the contraction read their elements: position
  \<open>z + Z * m\<close> of a column is element \<open>z\<close> of block \<open>m\<close>.
\<close>

lemma bidx_id: "i < d \<Longrightarrow> bidx d i = i"
  by (auto simp: bidx_def)

lemma flat_index:
  assumes "0 < (Z::nat)" "z < Z" "m < M"
  shows "(z + Z * (m + M * k)) mod (M * Z) = z + Z * m"
    and "(z + Z * (m + M * k)) div (M * Z) = k"
proof -
  have lt: "z + Z * m < M * Z"
  proof -
    have "z + Z * m < Z + Z * m" using assms(2) by simp
    also have "\<dots> = Z * (m + 1)" by simp
    also have "\<dots> \<le> Z * M" using assms(3) by (intro mult_le_mono2) simp
    finally show ?thesis by (simp add: mult.commute)
  qed
  have e: "z + Z * (m + M * k) = (z + Z * m) + k * (M * Z)"
    by (simp add: algebra_simps)
  show "(z + Z * (m + M * k)) mod (M * Z) = z + Z * m"
    unfolding e using lt by simp
  have "0 < M * Z" using assms by simp
  then show "(z + Z * (m + M * k)) div (M * Z) = k"
    unfolding e using lt by simp
qed

lemma row_index:
  assumes "0 < (Z::nat)" "i < N * Z"
  shows "(i + Z * N * k) mod Z = i mod Z"
    and "((i + Z * N * k) div Z) mod N = i div Z"
    and "(i + Z * N * k) div (Z * N) = k"
proof -
  have d: "i div Z < N" using assms by (simp add: less_mult_imp_div_less)
  have e: "i + Z * N * k = i + (N * k) * Z" by (simp add: algebra_simps)
  show "(i + Z * N * k) mod Z = i mod Z" unfolding e by simp
  have "(i + Z * N * k) div Z = i div Z + N * k"
    unfolding e using assms(1) by simp
  then show "((i + Z * N * k) div Z) mod N = i div Z"
    using d by simp
  have e2: "i + Z * N * k = i + k * (Z * N)" by (simp add: algebra_simps)
  have "i < Z * N" using assms(2) by (simp add: mult.commute)
  moreover from this have "0 < Z * N" by (cases "Z * N") simp_all
  ultimately show "(i + Z * N * k) div (Z * N) = k"
    unfolding e2 by simp
qed

text \<open>
  The forward transform, for any block grid: row \<open>i\<close> of the result is the
  sum over the block columns \<open>m\<close> of \<open>tenDiags[i div Z, m, i mod Z]\<close> times
  row \<open>i mod Z + Z * m\<close> of the input.
\<close>

lemma DiagBlocks_forward_elt:
  assumes Z: "0 < dim2 T" and M: "0 < dim1 T" and K: "0 < shape1 X"
    and sh: "shape0 X = dim1 T * dim2 T"
  shows "\<exists>R. DiagBlocks_forward (DiagBlocks_init T) X = Inr R
           \<and> shape0 R = dim0 T * dim2 T \<and> shape1 R = shape1 X
           \<and> adtype R = promote_types (adtype X) (tdtype T)
           \<and> (\<forall>i<dim0 T * dim2 T. \<forall>k<shape1 X.
                 elt R i k = store (promote_types (adtype X) (tdtype T))
                   (\<Sum>m<dim1 T. elt3 T (i div dim2 T) m (i mod dim2 T)
                                   * elt X (i mod dim2 T + dim2 T * m) k))"
proof -
  let ?N = "dim0 T" and ?M = "dim1 T" and ?Z = "dim2 T" and ?K = "shape1 X"
  let ?d = "promote_types (adtype X) (tdtype T)"
  let ?X3 = "\<lparr>dim0 = ?Z, dim1 = ?M, dim2 = ?K, tdtype = adtype X,
              elt3 = \<lambda>a b c. flatF X (a + ?Z * (b + ?M * c))\<rparr>"
  let ?E = "\<lparr>dim0 = ?Z, dim1 = ?N, dim2 = ?K,
             tdtype = promote_types (tdtype T) (adtype X),
             elt3 = \<lambda>zz nn kk. \<Sum>mm<?M.
                        elt3 T nn (bidx ?M mm) (bidx ?Z zz)
                        * elt3 ?X3 (bidx ?Z zz) (bidx ?M mm) kk\<rparr>"
  let ?V = "\<lparr>shape0 = ?Z * ?N, shape1 = ?K, adtype = promote_types (tdtype T) (adtype X),
             elt = \<lambda>i j. flat3F ?E (i + ?Z * ?N * j)\<rparr>"
  have tot: "?M * ?Z * ?K = ?Z * (?M * ?K)" by (simp add: algebra_simps)
  have MK: "0 < ?M * ?K" using M K by simp
  have r3: "reshape3F X ?M ?K = Inr ?X3"
    using MK by (simp add: reshape3F_def sh tot Let_def)
  have es: "einsum_nmz_zmk T ?X3 = Inr ?E"
    by (simp add: einsum_nmz_zmk_def bcast_def)
  have tot2: "?Z * ?N * ?K = (?Z * ?N) * ?K" by simp
  have r2: "reshape2F ?E ?K = Inr ?V"
    using K by (simp add: reshape2F_def Let_def)
  let ?R = "(np_zeros (?N * ?Z) ?K ?d)\<lparr>elt := \<lambda>i j. store ?d
                (elt ?V (bidx (shape0 ?V) i) (bidx (shape1 ?V) j))\<rparr>"
  have as: "assign_all (np_zeros (?N * ?Z) ?K ?d) ?V = Inr ?R"
    by (simp add: assign_all_def np_zeros_def mult.commute)
  have run: "DiagBlocks_forward (DiagBlocks_init T) X = Inr ?R"
    unfolding DiagBlocks_forward_def DiagBlocks_forwardC_def
    using r3 es r2 as sh by (simp add: DiagBlocks_init_def)
  have val: "elt ?R i k = store ?d
                   (\<Sum>m<?M. elt3 T (i div ?Z) m (i mod ?Z) * elt X (i mod ?Z + ?Z * m) k)"
    if i: "i < ?N * ?Z" and k: "k < ?K" for i k
  proof -
    have iz: "i mod ?Z < ?Z" using Z by simp
    have i': "i < ?Z * ?N" using i by (simp add: mult.commute)
    have "elt ?R i k = store ?d (flat3F ?E (i + ?Z * ?N * k))"
      using i' k by (simp add: np_zeros_def bidx_id)
    also have "flat3F ?E (i + ?Z * ?N * k) = elt3 ?E (i mod ?Z) (i div ?Z) k"
      using row_index [OF Z i, of k] by (simp add: flat3F_def)
    also have "\<dots> = (\<Sum>mm<?M. elt3 T (i div ?Z) mm (i mod ?Z)
                           * elt X (i mod ?Z + ?Z * mm) k)"
    proof -
      have "elt3 T (i div ?Z) (bidx ?M mm) (bidx ?Z (i mod ?Z))
              * elt3 ?X3 (bidx ?Z (i mod ?Z)) (bidx ?M mm) k
            = elt3 T (i div ?Z) mm (i mod ?Z) * elt X (i mod ?Z + ?Z * mm) k"
        if "mm \<in> {..<?M}" for mm
      proof -
        from that have mm: "mm < ?M" by simp
        show ?thesis
          using flat_index [OF Z iz mm, of k]
          by (simp add: bidx_id [OF mm] bidx_id [OF iz] flatF_def sh)
      qed
      then have "(\<Sum>mm<?M. elt3 T (i div ?Z) (bidx ?M mm) (bidx ?Z (i mod ?Z))
                       * elt3 ?X3 (bidx ?Z (i mod ?Z)) (bidx ?M mm) k)
               = (\<Sum>mm<?M. elt3 T (i div ?Z) mm (i mod ?Z) * elt X (i mod ?Z + ?Z * mm) k)"
        by (rule sum.cong [OF refl])
      then show ?thesis by simp
    qed
    finally show ?thesis .
  qed
  have "shape0 ?R = ?N * ?Z" "shape1 ?R = ?K" "adtype ?R = ?d"
    by (simp_all add: np_zeros_def)
  with run val show ?thesis by blast
qed

text \<open>
  The backward transform on a square block grid: the conjugated tensor with
  the two block indices in each other's place.
\<close>

lemma DiagBlocks_backward_elt:
  assumes Z: "0 < dim2 T" and M: "0 < dim1 T" and K: "0 < shape1 Y"
    and sq: "dim0 T = dim1 T"
    and sh: "shape0 Y = dim0 T * dim2 T"
  shows "\<exists>R. DiagBlocks_backward (DiagBlocks_init T) Y = Inr R
           \<and> shape0 R = dim1 T * dim2 T \<and> shape1 R = shape1 Y
           \<and> adtype R = promote_types (adtype Y) (tdtype T)
           \<and> (\<forall>j<dim1 T * dim2 T. \<forall>k<shape1 Y.
                 elt R j k = store (promote_types (adtype Y) (tdtype T))
                   (\<Sum>m<dim0 T. cnj (elt3 T m (j div dim2 T) (j mod dim2 T))
                                   * elt Y (j mod dim2 T + dim2 T * m) k))"
proof -
  let ?N = "dim0 T" and ?M = "dim1 T" and ?Z = "dim2 T" and ?K = "shape1 Y"
  let ?d = "promote_types (adtype Y) (tdtype T)"
  let ?Y3 = "\<lparr>dim0 = ?Z, dim1 = ?M, dim2 = ?K, tdtype = adtype Y,
              elt3 = \<lambda>a b c. flatF Y (a + ?Z * (b + ?M * c))\<rparr>"
  let ?E = "\<lparr>dim0 = ?Z, dim1 = ?M, dim2 = ?K,
             tdtype = promote_types (tdtype T) (adtype Y),
             elt3 = \<lambda>zz nn kk. \<Sum>mm<?N.
                        elt3 (conj3 T) (bidx ?N mm) nn (bidx ?Z zz)
                        * elt3 ?Y3 (bidx ?Z zz) (bidx ?M mm) kk\<rparr>"
  let ?V = "\<lparr>shape0 = ?Z * ?M, shape1 = ?K, adtype = promote_types (tdtype T) (adtype Y),
             elt = \<lambda>i j. flat3F ?E (i + ?Z * ?M * j)\<rparr>"
  have tot: "?M * ?Z * ?K = ?Z * (?M * ?K)" by (simp add: algebra_simps)
  have MK: "0 < ?M * ?K" using M K by simp
  have r3: "reshape3F Y ?M ?K = Inr ?Y3"
    using MK by (simp add: reshape3F_def sh sq tot Let_def)
  have es: "einsum_mnz_zmk (conj3 T) ?Y3 = Inr ?E"
    by (simp add: einsum_mnz_zmk_def bcast_def conj3_def sq)
  have r2: "reshape2F ?E ?K = Inr ?V"
    using K by (simp add: reshape2F_def Let_def)
  let ?R = "(np_zeros (?M * ?Z) ?K ?d)\<lparr>elt := \<lambda>i j. store ?d
                (elt ?V (bidx (shape0 ?V) i) (bidx (shape1 ?V) j))\<rparr>"
  have as: "assign_all (np_zeros (?M * ?Z) ?K ?d) ?V = Inr ?R"
    by (simp add: assign_all_def np_zeros_def mult.commute)
  have run: "DiagBlocks_backward (DiagBlocks_init T) Y = Inr ?R"
    unfolding DiagBlocks_backward_def DiagBlocks_backwardC_def
    using r3 es r2 as sh by (simp add: DiagBlocks_init_def)
  have val: "elt ?R j k = store ?d
                   (\<Sum>m<?N. cnj (elt3 T m (j div ?Z) (j mod ?Z)) * elt Y (j mod ?Z + ?Z * m) k)"
    if j: "j < ?M * ?Z" and k: "k < ?K" for j k
  proof -
    have jz: "j mod ?Z < ?Z" using Z by simp
    have j': "j < ?Z * ?M" using j by (simp add: mult.commute)
    have "elt ?R j k = store ?d (flat3F ?E (j + ?Z * ?M * k))"
      using j' k by (simp add: np_zeros_def bidx_id)
    also have "flat3F ?E (j + ?Z * ?M * k) = elt3 ?E (j mod ?Z) (j div ?Z) k"
      using row_index [OF Z j, of k] by (simp add: flat3F_def)
    also have "\<dots> = (\<Sum>mm<?N. cnj (elt3 T mm (j div ?Z) (j mod ?Z))
                           * elt Y (j mod ?Z + ?Z * mm) k)"
    proof -
      have "elt3 (conj3 T) (bidx ?N mm) (j div ?Z) (bidx ?Z (j mod ?Z))
              * elt3 ?Y3 (bidx ?Z (j mod ?Z)) (bidx ?M mm) k
            = cnj (elt3 T mm (j div ?Z) (j mod ?Z)) * elt Y (j mod ?Z + ?Z * mm) k"
        if "mm \<in> {..<?N}" for mm
      proof -
        from that have mm: "mm < ?M" "mm < ?N" using sq by simp_all
        show ?thesis
          using flat_index [OF Z jz mm(1), of k]
          by (simp add: bidx_id [OF mm(1)] bidx_id [OF mm(2)] bidx_id [OF jz] flatF_def sh sq conj3_def)
      qed
      then have "(\<Sum>mm<?N. elt3 (conj3 T) (bidx ?N mm) (j div ?Z) (bidx ?Z (j mod ?Z))
                       * elt3 ?Y3 (bidx ?Z (j mod ?Z)) (bidx ?M mm) k)
               = (\<Sum>mm<?N. cnj (elt3 T mm (j div ?Z) (j mod ?Z)) * elt Y (j mod ?Z + ?Z * mm) k)"
        by (rule sum.cong [OF refl])
      then show ?thesis by simp
    qed
    finally show ?thesis .
  qed
  have "shape0 ?R = ?M * ?Z" "shape1 ?R = ?K" "adtype ?R = ?d"
    by (simp_all add: np_zeros_def)
  with run val show ?thesis by blast
qed

lemma sum_blocks:
  fixes f :: "nat \<Rightarrow> nat \<Rightarrow> complex"
  assumes "0 < Z"
  shows "(\<Sum>i<N * Z. f (i div Z) (i mod Z)) = (\<Sum>n<N. \<Sum>z<Z. f n z)"
proof -
  let ?g = "\<lambda>i. f (i div Z) (i mod Z)"
  have "(\<Sum>i<N * Z. ?g i) = (\<Sum>n<N. sum ?g {n * Z..<n * Z + Z})"
    by (rule sum.nat_group [symmetric])
  also have "\<dots> = (\<Sum>n<N. \<Sum>z<Z. f n z)"
  proof (rule sum.cong [OF refl])
    fix n
    have "sum ?g {n * Z..<n * Z + Z} = sum ?g {0 + n * Z..<Z + n * Z}"
      by (simp add: add.commute)
    also have "\<dots> = (\<Sum>z = 0..<Z. ?g (z + n * Z))"
      by (rule sum.shift_bounds_nat_ivl)
    also have "\<dots> = (\<Sum>z = 0..<Z. f n z)"
      using assms by (intro sum.cong [OF refl]) simp
    finally show "sum ?g {n * Z..<n * Z + Z} = (\<Sum>z<Z. f n z)"
      by (simp add: lessThan_atLeast0)
  qed
  finally show ?thesis .
qed

text \<open>
  On a square block grid of complex elements the two transforms are adjoint.
\<close>

lemma promote_types_Complex128 [simp]: "promote_types a Complex128 = Complex128"
  by (cases a) simp_all

lemma DiagBlocks_adjoint_square:
  assumes Z: "0 < dim2 T" and M: "0 < dim1 T" and sq: "dim0 T = dim1 T"
    and K: "0 < shape1 X" and KY: "shape1 Y = shape1 X"
    and shX: "shape0 X = dim1 T * dim2 T" and shY: "shape0 Y = dim0 T * dim2 T"
    and cx: "tdtype T = Complex128"
  shows "\<exists>F B. DiagBlocks_forward (DiagBlocks_init T) X = Inr F
             \<and> DiagBlocks_backward (DiagBlocks_init T) Y = Inr B
             \<and> shape0 F = dim0 T * dim2 T \<and> shape0 B = dim1 T * dim2 T
             \<and> (\<forall>k<shape1 X.
                   (\<Sum>i<dim0 T * dim2 T. elt F i k * cnj (elt Y i k))
                     = (\<Sum>j<dim1 T * dim2 T. elt X j k * cnj (elt B j k)))"
proof -
  let ?N = "dim1 T" and ?Z = "dim2 T"
  from DiagBlocks_forward_elt [OF Z M K shX]
  obtain F where F: "DiagBlocks_forward (DiagBlocks_init T) X = Inr F"
    "shape0 F = dim0 T * ?Z"
    "\<forall>i<dim0 T * ?Z. \<forall>k<shape1 X.
        elt F i k = (\<Sum>m<?N. elt3 T (i div ?Z) m (i mod ?Z) * elt X (i mod ?Z + ?Z * m) k)"
    unfolding cx promote_types_Complex128 store.simps by blast
  have KY': "0 < shape1 Y" using K KY by simp
  from DiagBlocks_backward_elt [OF Z M KY' sq shY]
  obtain B where B: "DiagBlocks_backward (DiagBlocks_init T) Y = Inr B"
    "shape0 B = ?N * ?Z"
    "\<forall>j<?N * ?Z. \<forall>k<shape1 Y.
        elt B j k = (\<Sum>m<dim0 T. cnj (elt3 T m (j div ?Z) (j mod ?Z)) * elt Y (j mod ?Z + ?Z * m) k)"
    unfolding cx promote_types_Complex128 store.simps by blast
  have id: "(\<Sum>i<dim0 T * ?Z. elt F i k * cnj (elt Y i k))
              = (\<Sum>j<?N * ?Z. elt X j k * cnj (elt B j k))"
    if k: "k < shape1 X" for k
  proof -
    let ?g = "\<lambda>n z m. elt3 T n m z * elt X (z + ?Z * m) k * cnj (elt Y (z + ?Z * n) k)"
    have "(\<Sum>i<dim0 T * ?Z. elt F i k * cnj (elt Y i k))
            = (\<Sum>i<?N * ?Z. (\<Sum>m<?N. ?g (i div ?Z) (i mod ?Z) m))"
    proof (unfold sq, rule sum.cong [OF refl])
      fix i assume "i \<in> {..<?N * ?Z}"
      then have "elt F i k = (\<Sum>m<?N. elt3 T (i div ?Z) m (i mod ?Z) * elt X (i mod ?Z + ?Z * m) k)"
        using F(3) k sq by simp
      then show "elt F i k * cnj (elt Y i k) = (\<Sum>m<?N. ?g (i div ?Z) (i mod ?Z) m)"
        by (simp add: sum_distrib_right)
    qed
    also have "\<dots> = (\<Sum>n<?N. \<Sum>z<?Z. \<Sum>m<?N. ?g n z m)"
      by (rule sum_blocks [OF Z])
    also have "\<dots> = (\<Sum>n<?N. \<Sum>m<?N. \<Sum>z<?Z. ?g n z m)"
      by (intro sum.cong [OF refl] sum.swap)
    also have "\<dots> = (\<Sum>m<?N. \<Sum>n<?N. \<Sum>z<?Z. ?g n z m)"
      by (rule sum.swap)
    also have "\<dots> = (\<Sum>m<?N. \<Sum>z<?Z. \<Sum>n<?N. ?g n z m)"
      by (intro sum.cong [OF refl] sum.swap)
    also have "\<dots> = (\<Sum>j<?N * ?Z. (\<Sum>n<?N. ?g n (j mod ?Z) (j div ?Z)))"
      by (rule sum_blocks [OF Z, symmetric])
    also have "\<dots> = (\<Sum>j<?N * ?Z. elt X j k * cnj (elt B j k))"
    proof (rule sum.cong [OF refl])
      fix j assume "j \<in> {..<?N * ?Z}"
      then have "elt B j k
          = (\<Sum>m<?N. cnj (elt3 T m (j div ?Z) (j mod ?Z)) * elt Y (j mod ?Z + ?Z * m) k)"
        using B(3) k KY sq by simp
      then have "elt X j k * cnj (elt B j k)
          = (\<Sum>m<?N. elt X j k * (elt3 T m (j div ?Z) (j mod ?Z) * cnj (elt Y (j mod ?Z + ?Z * m) k)))"
        by (simp add: sum_distrib_left)
      also have "\<dots> = (\<Sum>n<?N. ?g n (j mod ?Z) (j div ?Z))"
        by (intro sum.cong [OF refl]) (simp add: mult_ac)
      finally show "(\<Sum>n<?N. ?g n (j mod ?Z) (j div ?Z)) = elt X j k * cnj (elt B j k)"
        by (rule sym)
    qed
    finally show ?thesis .
  qed
  from F(1,2) B(1,2) id show ?thesis by blast
qed

text \<open>
  C3 at a tensor of shape (2, 3, 2), a DiagBlocks of 4 rows and 6 columns:
  \<^verbatim>\<open>backward\<close> of a batch of 4 rows raises, because \<^verbatim>\<open>_backwardC\<close>
  reshapes its input by the number of block columns (3), where the input of
  \<^verbatim>\<open>backward\<close> has one block per block row (2); \<^verbatim>\<open>forward\<close> of a batch
  of 6 rows returns 4 rows.
\<close>

theorem DiagBlocks_backward_nonsquare:
  "d_numN (DiagBlocks_init tensorT) = 4 \<and> d_numM (DiagBlocks_init tensorT) = 6
   \<and> shape0 (full 4 1 Complex128 1) = d_numN (DiagBlocks_init tensorT)
   \<and> DiagBlocks_backward (DiagBlocks_init tensorT) (full 4 1 Complex128 1) = Inl NumpyError
   \<and> DiagBlocks_backwardC (DiagBlocks_init tensorT) (full 4 1 Complex128 1)
        (np_zeros 6 1 Complex128) = Inl NumpyError
   \<and> (\<exists>Y. DiagBlocks_forward (DiagBlocks_init tensorT) (full 6 1 Complex128 1) = Inr Y
          \<and> shape0 Y = 4 \<and> shape1 Y = 1)"
  by (simp add: DiagBlocks_backward_def DiagBlocks_backwardC_def DiagBlocks_forward_def
        DiagBlocks_forwardC_def DiagBlocks_init_def tensorT_def full_def np_zeros_def
        reshape3F_def reshape2F_def einsum_nmz_zmk_def bcast_def assign_all_def Let_def)

end
